theory Spec2Isabelle
  imports Complex_Main "HOL-Library.Sublist"
begin

section \<open>JavaScript values used by the launch validator and the workflow modules\<close>

text \<open>
  The launch validator is the second module of \<open>src/lib/launch/reporter.ts\<close> (from line
  458 on); the orchestrator and the workflow state manager are the second and third
  modules of \<open>src/unnamed/part_011\<close> (from lines 31 and 545 on).

  The numbers the modelled code computes with are counts of list elements, sums of integer
  scores and quotients of two such integers. They are modelled exactly: integers as
  \<^typ>\<open>int\<close>, a quotient as a \<^typ>\<open>rat\<close>. \<open>Math.round\<close> returns the integer nearest
  to its argument and rounds a tie upwards, which is \<open>floor (x + 1/2)\<close>. The double
  that JavaScript computes for a quotient \<open>n / d\<close> with \<open>n \<le> 100 * d\<close> and \<open>d\<close> an
  array length rounds to the same integer as the exact quotient: the exact quotient is a
  half-integer or at least \<open>1 / (2 * d)\<close> away from one, which is more than the error
  of the division.
\<close>

definition Math_round :: "rat \<Rightarrow> int" where
  "Math_round x = \<lfloor>x + 1 / 2\<rfloor>"

text \<open>
  A thrown value. The values thrown by the file system and glob calls are \<open>Error\<close> objects;
  \<open>String(error)\<close> is \<open>Error.prototype.toString\<close>: the name, a colon and the message,
  or only one of them when the other is empty.
\<close>

record thrown =
  err_name :: string
  err_message :: string

definition String_of_error :: "thrown \<Rightarrow> string" where
  "String_of_error e =
     (if err_name e = [] then err_message e
      else if err_message e = [] then err_name e
      else err_name e @ '': '' @ err_message e)"

section \<open>The launch validator: the data model\<close>

datatype CheckStatus = Pass | Fail | Warning | Skip

record ChecklistItem =
  item_id :: string
  item_name :: string
  item_status :: CheckStatus
  item_required :: bool
  item_message :: "string option"
  item_fix :: "string option"
  item_automated :: "bool option"

record ChecklistSection =
  section_name :: string
  section_items :: "ChecklistItem list"
  section_score :: int
  section_required :: bool

section \<open>The launch validator: calculateSectionScore\<close>

definition calculateSectionScore :: "ChecklistItem list \<Rightarrow> int" where
  "calculateSectionScore items =
     (if length items = 0 then 100
      else
        let total = int (length items);
            passed = int (length (filter (\<lambda>i. item_status i = Pass) items));
            warnings = int (length (filter (\<lambda>i. item_status i = Warning) items));
            skipped = int (length (filter (\<lambda>i. item_status i = Skip) items));
            score = of_int ((passed * 100) + (warnings * 50) + (skipped * 75)) / of_int total
        in Math_round score)"

text \<open>
  The specification's wording of the same score: every item is worth a number of points
  fixed by its status, and the score of a non-empty list is the rounded mean of the points.
\<close>

fun status_points :: "CheckStatus \<Rightarrow> int" where
  "status_points Pass = 100"
| "status_points Warning = 50"
| "status_points Skip = 75"
| "status_points Fail = 0"

definition rounded_mean_of_points :: "ChecklistItem list \<Rightarrow> int" where
  "rounded_mean_of_points items =
     Math_round (of_int (sum_list (map (\<lambda>i. status_points (item_status i)) items))
                 / of_int (int (length items)))"

section \<open>The launch validator: the project as the check functions observe it\<close>

text \<open>
  The check functions read the project through four calls: \<open>existsSync\<close>, \<open>glob\<close>,
  \<open>fs.readFile\<close> and \<open>detectFramework\<close>. A project is the answers to these calls, each
  path and pattern taken relative to the project root. \<open>existsSync\<close> never throws, and
  \<open>detectFramework\<close> catches whatever its own reads throw and always returns a detection
  result, of which only the framework is read here; \<open>await glob(...)\<close> and
  \<open>await fs.readFile(...)\<close> either deliver a value or throw.
\<close>

datatype Framework =
  NextApp | NextPages | ReactVite | ReactCra | Vue | Svelte | Astro | StaticHtml | Unknown

record project =
  existsSync :: "string \<Rightarrow> bool"
  glob :: "string \<Rightarrow> thrown + string list"
  readFile :: "string \<Rightarrow> thrown + string"
  detectFramework :: Framework

text \<open>\<open>await m\<close> followed by the rest of the function body: a thrown value leaves the body.\<close>

definition await :: "thrown + 'a \<Rightarrow> ('a \<Rightarrow> thrown + 'b) \<Rightarrow> thrown + 'b" where
  "await m k = (case m of Inl e \<Rightarrow> Inl e | Inr x \<Rightarrow> k x)"

text \<open>\<open>content.includes(s)\<close>: \<open>s\<close> occurs in \<open>content\<close> as a contiguous substring.\<close>

definition String_includes :: "string \<Rightarrow> string \<Rightarrow> bool" where
  "String_includes content s = sublist s content"

text \<open>The decimal numeral a template literal prints for a list length.\<close>

definition digit_char :: "nat \<Rightarrow> char" where
  "digit_char d = ''0123456789'' ! (d mod 10)"

fun Number_toString :: "nat \<Rightarrow> string" where
  "Number_toString n =
     (if n < 10 then [digit_char n]
      else Number_toString (n div 10) @ [digit_char (n mod 10)])"

declare Number_toString.simps [simp del]

section \<open>The launch validator: the eight check functions\<close>

text \<open>
  Each check function pushes its items in a fixed order and computes the score of the
  section at the end; the items are written here as the list in the order of the
  \<open>push\<close> calls. The reads that can throw are awaited in the order of the source.
\<close>

definition checkAssets :: "project \<Rightarrow> thrown + ChecklistSection" where
  "checkAssets p =
     (let faviconExists = existsSync p ''public/favicon.ico'' in
      await (glob p ''public/*og-image*.{png,jpg}'') (\<lambda>ogImages.
      await (glob p ''public/*twitter*.{png,jpg}'') (\<lambda>twitterImages.
      await (glob p ''public/android-chrome-*.png'') (\<lambda>pwaIcons.
      let manifestExists = existsSync p ''public/manifest.json'';
          items =
            [\<lparr>item_id = ''favicon'', item_name = ''Favicon generated'',
              item_status = (if faviconExists then Pass else Fail),
              item_required = True,
              item_message = Some (if faviconExists then ''favicon.ico found'' else ''No favicon.ico''),
              item_fix = (if faviconExists then None else Some ''Run /ship-assets''),
              item_automated = Some True\<rparr>,
             \<lparr>item_id = ''og-images'', item_name = ''Open Graph images created'',
              item_status = (if length ogImages > 0 then Pass else Fail),
              item_required = True,
              item_message = Some (if length ogImages > 0
                then Number_toString (length ogImages) @ '' OG images found'' else ''No OG images''),
              item_fix = (if length ogImages > 0 then None else Some ''Run /ship-assets''),
              item_automated = Some True\<rparr>,
             \<lparr>item_id = ''twitter-cards'', item_name = ''Twitter cards configured'',
              item_status = (if length twitterImages > 0 then Pass else Warning),
              item_required = False,
              item_message = Some (if length twitterImages > 0
                then ''Twitter images found'' else ''No Twitter card images''),
              item_fix = None,
              item_automated = Some True\<rparr>,
             \<lparr>item_id = ''pwa-icons'', item_name = ''PWA icons ready'',
              item_status = (if length pwaIcons \<ge> 2 then Pass else Warning),
              item_required = False,
              item_message = Some (if length pwaIcons \<ge> 2
                then Number_toString (length pwaIcons) @ '' PWA icons found'' else ''Missing PWA icons''),
              item_fix = None,
              item_automated = Some True\<rparr>,
             \<lparr>item_id = ''manifest'', item_name = ''Manifest.json exists'',
              item_status = (if manifestExists then Pass else Warning),
              item_required = False,
              item_message = Some (if manifestExists then ''manifest.json found'' else ''No manifest.json''),
              item_fix = None,
              item_automated = Some True\<rparr>];
          score = calculateSectionScore items
      in Inr \<lparr>section_name = ''Assets & Branding'', section_items = items,
               section_score = score, section_required = True\<rparr>))))"

definition checkSEO :: "project \<Rightarrow> thrown + ChecklistSection" where
  "checkSEO p =
     (let detection = detectFramework p;
          sitemapExists =
            (if detection = NextApp
             then existsSync p ''app/sitemap.ts'' \<or> existsSync p ''app/sitemap.js''
             else existsSync p ''public/sitemap.xml'');
          robotsExists = existsSync p ''public/robots.txt''
      in
      await (if detection = NextApp \<and> existsSync p ''app/layout.tsx''
             then await (readFile p ''app/layout.tsx'') (\<lambda>content.
                    Inr (String_includes content ''metadata'' \<and> String_includes content ''description''))
             else Inr False) (\<lambda>hasMetaTags.
      let items =
            [\<lparr>item_id = ''sitemap'', item_name = ''Sitemap generated'',
              item_status = (if sitemapExists then Pass else Fail),
              item_required = True,
              item_message = Some (if sitemapExists then ''Sitemap found'' else ''No sitemap''),
              item_fix = (if sitemapExists then None else Some ''Run /ship-seo''),
              item_automated = Some True\<rparr>,
             \<lparr>item_id = ''robots'', item_name = ''Robots.txt created'',
              item_status = (if robotsExists then Pass else Fail),
              item_required = True,
              item_message = Some (if robotsExists then ''robots.txt found'' else ''No robots.txt''),
              item_fix = (if robotsExists then None else Some ''Run /ship-seo''),
              item_automated = Some True\<rparr>,
             \<lparr>item_id = ''meta-tags'', item_name = ''Meta tags complete'',
              item_status = (if hasMetaTags then Pass else Warning),
              item_required = True,
              item_message = Some (if hasMetaTags
                then ''Meta tags configured'' else ''Meta tags may be incomplete''),
              item_fix = (if hasMetaTags then None else Some ''Run /ship-seo''),
              item_automated = Some True\<rparr>,
             \<lparr>item_id = ''structured-data'', item_name = ''Structured data added'',
              item_status = Skip, item_required = False,
              item_message = Some ''Manual verification needed'',
              item_fix = None, item_automated = Some False\<rparr>,
             \<lparr>item_id = ''search-console'', item_name = ''Google Search Console setup'',
              item_status = Skip, item_required = False,
              item_message = Some ''Manual setup required'',
              item_fix = None, item_automated = Some False\<rparr>];
          score = calculateSectionScore items
      in Inr \<lparr>section_name = ''SEO Optimization'', section_items = items,
               section_score = score, section_required = True\<rparr>))"

definition checkPerformance :: "project \<Rightarrow> thrown + ChecklistSection" where
  "checkPerformance p =
     (let buildExists = existsSync p ''.next'' \<or> existsSync p ''dist'' \<or> existsSync p ''build'' in
      await (glob p ''public/**/*.webp'') (\<lambda>webpImages.
      let detection = detectFramework p in
      await (if detection = NextApp \<or> detection = NextPages
             then await (if existsSync p ''next.config.js''
                         then await (readFile p ''next.config.js'') (\<lambda>content.
                                Inr (String_includes content ''swcMinify'' \<and> String_includes content ''compress''))
                         else Inr False) (\<lambda>configOptimized.
                    Inr [\<lparr>item_id = ''config-optimized'', item_name = ''Framework config optimized'',
                          item_status = (if configOptimized then Pass else Warning),
                          item_required = False,
                          item_message = Some (if configOptimized
                            then ''Config optimized'' else ''Config not optimized''),
                          item_fix = (if configOptimized then None else Some ''Run /ship-perf''),
                          item_automated = Some True\<rparr>])
             else Inr []) (\<lambda>configItems.
      let items =
            [\<lparr>item_id = ''build-output'', item_name = ''Production build exists'',
              item_status = (if buildExists then Pass else Warning),
              item_required = True,
              item_message = Some (if buildExists then ''Build output found'' else ''No build output''),
              item_fix = (if buildExists then None else Some ''Run: npm run build''),
              item_automated = Some False\<rparr>,
             \<lparr>item_id = ''optimized-images'', item_name = ''Images optimized'',
              item_status = (if length webpImages > 0 then Pass else Warning),
              item_required = False,
              item_message = Some (if length webpImages > 0
                then Number_toString (length webpImages) @ '' WebP images found''
                else ''No optimized images''),
              item_fix = (if length webpImages = 0 then Some ''Run /ship-perf'' else None),
              item_automated = Some True\<rparr>]
            @ configItems @
            [\<lparr>item_id = ''lighthouse-score'', item_name = ''Lighthouse score > 90'',
              item_status = Skip, item_required = False,
              item_message = Some ''Run /ship-perf to check'',
              item_fix = None, item_automated = Some True\<rparr>,
             \<lparr>item_id = ''core-web-vitals'', item_name = ''Core Web Vitals good'',
              item_status = Skip, item_required = False,
              item_message = Some ''Run /ship-perf to check'',
              item_fix = None, item_automated = Some True\<rparr>];
          score = calculateSectionScore items
      in Inr \<lparr>section_name = ''Performance'', section_items = items,
               section_score = score, section_required = True\<rparr>)))"

definition checkSecurity :: "project \<Rightarrow> thrown + ChecklistSection" where
  "checkSecurity p =
     (await (if existsSync p ''.gitignore''
             then await (readFile p ''.gitignore'') (\<lambda>content.
                    Inr (String_includes content ''.env''))
             else Inr False) (\<lambda>envIgnored.
      let detection = detectFramework p in
      await (if (detection = NextApp \<or> detection = NextPages) \<and> existsSync p ''next.config.js''
             then await (readFile p ''next.config.js'') (\<lambda>content.
                    Inr (String_includes content ''headers()''))
             else Inr False) (\<lambda>hasSecurityHeaders.
      let items =
            [\<lparr>item_id = ''env-gitignore'', item_name = ''Environment variables not exposed'',
              item_status = (if envIgnored then Pass else Warning),
              item_required = True,
              item_message = Some (if envIgnored
                then ''.env is gitignored'' else ''.env may not be gitignored''),
              item_fix = None, item_automated = Some False\<rparr>,
             \<lparr>item_id = ''security-headers'', item_name = ''Security headers set'',
              item_status = (if hasSecurityHeaders then Pass else Warning),
              item_required = False,
              item_message = Some (if hasSecurityHeaders
                then ''Headers configured'' else ''No security headers''),
              item_fix = None, item_automated = Some True\<rparr>,
             \<lparr>item_id = ''dependencies'', item_name = ''Dependencies up to date'',
              item_status = Skip, item_required = False,
              item_message = Some ''Run: npm audit'',
              item_fix = None, item_automated = Some False\<rparr>,
             \<lparr>item_id = ''no-secrets'', item_name = ''No API keys in client code'',
              item_status = Skip, item_required = True,
              item_message = Some ''Manual verification needed'',
              item_fix = None, item_automated = Some False\<rparr>,
             \<lparr>item_id = ''https'', item_name = ''HTTPS enabled'',
              item_status = Skip, item_required = True,
              item_message = Some ''Verify after deployment'',
              item_fix = None, item_automated = Some False\<rparr>];
          score = calculateSectionScore items
      in Inr \<lparr>section_name = ''Security'', section_items = items,
               section_score = score, section_required = True\<rparr>)))"

definition checkFunctionality :: "project \<Rightarrow> thrown + ChecklistSection" where
  "checkFunctionality p =
     (let detection = detectFramework p;
          has404 =
            (if detection = NextApp
             then existsSync p ''app/not-found.tsx'' \<or> existsSync p ''app/not-found.jsx''
             else if detection = NextPages
             then existsSync p ''pages/404.tsx'' \<or> existsSync p ''pages/404.jsx''
             else False);
          items =
            [\<lparr>item_id = ''404-page'', item_name = ''404 page exists'',
              item_status = (if has404 then Pass else Warning),
              item_required = False,
              item_message = Some (if has404 then ''404 page found'' else ''No custom 404 page''),
              item_fix = None, item_automated = Some False\<rparr>,
             \<lparr>item_id = ''error-handling'', item_name = ''Error handling in place'',
              item_status = Skip, item_required = False,
              item_message = Some ''Manual verification needed'',
              item_fix = None, item_automated = Some False\<rparr>,
             \<lparr>item_id = ''forms'', item_name = ''Forms working correctly'',
              item_status = Skip, item_required = False,
              item_message = Some ''Manual testing required'',
              item_fix = None, item_automated = Some False\<rparr>,
             \<lparr>item_id = ''links'', item_name = ''Links not broken'',
              item_status = Skip, item_required = False,
              item_message = Some ''Manual verification needed'',
              item_fix = None, item_automated = Some False\<rparr>,
             \<lparr>item_id = ''mobile-responsive'', item_name = ''Mobile responsive'',
              item_status = Skip, item_required = False,
              item_message = Some ''Manual testing required'',
              item_fix = None, item_automated = Some False\<rparr>];
          score = calculateSectionScore items
      in Inr \<lparr>section_name = ''Functionality'', section_items = items,
               section_score = score, section_required = False\<rparr>)"

definition checkAnalytics :: "project \<Rightarrow> thrown + ChecklistSection" where
  "checkAnalytics p =
     (let items =
            [\<lparr>item_id = ''analytics'', item_name = ''Analytics installed'',
              item_status = Skip, item_required = False,
              item_message = Some ''Manual setup (Google Analytics, Vercel Analytics, etc.)'',
              item_fix = None, item_automated = Some False\<rparr>,
             \<lparr>item_id = ''error-tracking'', item_name = ''Error tracking setup'',
              item_status = Skip, item_required = False,
              item_message = Some ''Manual setup (Sentry, LogRocket, etc.)'',
              item_fix = None, item_automated = Some False\<rparr>,
             \<lparr>item_id = ''performance-monitoring'', item_name = ''Performance monitoring'',
              item_status = Skip, item_required = False,
              item_message = Some ''Manual setup'',
              item_fix = None, item_automated = Some False\<rparr>];
          score = calculateSectionScore items
      in Inr \<lparr>section_name = ''Analytics & Monitoring'', section_items = items,
               section_score = score, section_required = False\<rparr>)"

definition checkDocumentation :: "project \<Rightarrow> thrown + ChecklistSection" where
  "checkDocumentation p =
     (let readmeExists = existsSync p ''README.md'';
          changelogExists = existsSync p ''CHANGELOG.md'';
          items =
            [\<lparr>item_id = ''readme'', item_name = ''README.md complete'',
              item_status = (if readmeExists then Pass else Warning),
              item_required = False,
              item_message = Some (if readmeExists then ''README.md found'' else ''No README.md''),
              item_fix = None, item_automated = Some False\<rparr>,
             \<lparr>item_id = ''changelog'', item_name = ''Changelog started'',
              item_status = (if changelogExists then Pass else Skip),
              item_required = False,
              item_message = Some (if changelogExists
                then ''CHANGELOG.md found'' else ''No CHANGELOG.md''),
              item_fix = None, item_automated = Some False\<rparr>,
             \<lparr>item_id = ''api-docs'', item_name = ''API docs (if applicable)'',
              item_status = Skip, item_required = False,
              item_message = Some ''Only if you have an API'',
              item_fix = None, item_automated = Some False\<rparr>];
          score = calculateSectionScore items
      in Inr \<lparr>section_name = ''Documentation'', section_items = items,
               section_score = score, section_required = False\<rparr>)"

definition checkLegal :: "project \<Rightarrow> thrown + ChecklistSection" where
  "checkLegal p =
     (let items =
            [\<lparr>item_id = ''privacy-policy'', item_name = ''Privacy policy (if needed)'',
              item_status = Skip, item_required = False,
              item_message = Some ''Required if collecting user data'',
              item_fix = None, item_automated = Some False\<rparr>,
             \<lparr>item_id = ''terms'', item_name = ''Terms of service (if needed)'',
              item_status = Skip, item_required = False,
              item_message = Some ''Required for commercial apps'',
              item_fix = None, item_automated = Some False\<rparr>,
             \<lparr>item_id = ''cookies'', item_name = ''Cookie consent (if needed)'',
              item_status = Skip, item_required = False,
              item_message = Some ''Required for GDPR compliance'',
              item_fix = None, item_automated = Some False\<rparr>];
          score = calculateSectionScore items
      in Inr \<lparr>section_name = ''Legal & Compliance'', section_items = items,
               section_score = score, section_required = False\<rparr>)"

section \<open>The launch validator: runLaunchChecklist\<close>

text \<open>
  \<open>overallScore\<close> is \<open>Math.round(totalScore / sections.length)\<close>. The quotient of two
  integers is a rational number unless the divisor is 0; it is then \<open>NaN\<close> or an infinity,
  \<open>Math.round\<close> returns it unchanged, and \<open>NaN >= 70\<close> is false. \<open>None\<close> stands for such
  a value that is not a number: here only \<open>NaN\<close>, as the sum over no sections is 0.
\<close>

definition js_divide :: "int \<Rightarrow> int \<Rightarrow> rat option" where
  "js_divide a b = (if b = 0 then None else Some (of_int a / of_int b))"

definition js_ge :: "int option \<Rightarrow> int \<Rightarrow> bool" where
  "js_ge x n = (case x of None \<Rightarrow> False | Some v \<Rightarrow> v \<ge> n)"

record LaunchChecklist =
  lc_sections :: "ChecklistSection list"
  lc_overallScore :: "int option"
  lc_readyToLaunch :: bool
  lc_criticalIssues :: "ChecklistItem list"
  lc_warnings :: "ChecklistItem list"
  lc_timestamp :: int

text \<open>
  The body of the inner \<open>forEach\<close> callback: the state is the pair of the two arrays
  \<open>criticalIssues\<close> and \<open>warnings\<close>, and \<open>push\<close> appends at the end.
\<close>

definition collect_item ::
  "ChecklistItem \<Rightarrow> ChecklistItem list \<times> ChecklistItem list
     \<Rightarrow> ChecklistItem list \<times> ChecklistItem list" where
  "collect_item item acc =
     (if item_status item = Fail \<and> item_required item then (fst acc @ [item], snd acc)
      else if item_status item = Warning then (fst acc, snd acc @ [item])
      else acc)"

text \<open>
  The part of \<open>runLaunchChecklist\<close> after the eight sections have been pushed, as a function
  of the array \<open>sections\<close> and of the value of \<open>new Date()\<close>.
\<close>

definition assembleChecklist :: "ChecklistSection list \<Rightarrow> int \<Rightarrow> LaunchChecklist" where
  "assembleChecklist sections now =
     (let totalScore = fold (\<lambda>s sum. sum + section_score s) sections 0;
          overallScore = map_option Math_round (js_divide totalScore (int (length sections)));
          collected = fold (\<lambda>section acc. fold collect_item (section_items section) acc)
                        sections ([], []);
          criticalIssues = fst collected;
          warnings = snd collected;
          readyToLaunch = (length criticalIssues = 0 \<and> js_ge overallScore 70)
      in \<lparr>lc_sections = sections, lc_overallScore = overallScore,
          lc_readyToLaunch = readyToLaunch, lc_criticalIssues = criticalIssues,
          lc_warnings = warnings, lc_timestamp = now\<rparr>)"

definition runLaunchChecklist :: "project \<Rightarrow> int \<Rightarrow> thrown + LaunchChecklist" where
  "runLaunchChecklist p now =
     await (checkAssets p) (\<lambda>s1.
     await (checkSEO p) (\<lambda>s2.
     await (checkPerformance p) (\<lambda>s3.
     await (checkSecurity p) (\<lambda>s4.
     await (checkFunctionality p) (\<lambda>s5.
     await (checkAnalytics p) (\<lambda>s6.
     await (checkDocumentation p) (\<lambda>s7.
     await (checkLegal p) (\<lambda>s8.
     Inr (assembleChecklist [s1, s2, s3, s4, s5, s6, s7, s8] now)))))))))"

section \<open>The orchestrator: the data model\<close>

datatype StepStatus = Pending | Running | Completed | Failed | Skipped

text \<open>
  \<open>WorkflowStep.result\<close> has type \<open>any\<close>; the five step functions store one object shape
  each. \<open>AssetsResult\<close> has no \<open>totalSavings\<close> when the step was skipped.
\<close>

datatype StepResult =
    AssetsResult int "int option"
  | SeoResult int int int
  | PerfResult int int int
  | ChecklistResult LaunchChecklist
  | DeployResult string bool

record WorkflowStep =
  step_id :: string
  step_name :: string
  step_description :: string
  step_status :: StepStatus
  step_startTime :: "int option"
  step_endTime :: "int option"
  step_duration :: "int option"
  step_error :: "string option"
  step_result :: "StepResult option"

text \<open>
  Every field of \<open>WorkflowConfig\<close> is optional (\<open>skipDeploy?: boolean\<close>). An object of
  that type either lacks the property, or has it with the value \<open>undefined\<close>, or has it
  with a value of the field's type.
\<close>

datatype 'a field = Absent | Undefined | Defined 'a

record WorkflowConfig =
  skipAssets :: "bool field"
  skipSEO :: "bool field"
  skipPerf :: "bool field"
  skipDeploy :: "bool field"
  autoFix :: "bool field"
  targetScore :: "int field"
  production :: "bool field"

definition DEFAULT_CONFIG :: WorkflowConfig where
  "DEFAULT_CONFIG =
     \<lparr>skipAssets = Defined False, skipSEO = Defined False, skipPerf = Defined False,
      skipDeploy = Defined True, autoFix = Defined True, targetScore = Defined 90,
      production = Defined False\<rparr>"

text \<open>
  \<open>{ ...a, ...b }\<close> copies every property that \<open>b\<close> has over that of \<open>a\<close>, also a
  property whose value is \<open>undefined\<close>; a property that \<open>b\<close> lacks keeps the value of
  \<open>a\<close>.
\<close>

definition spread_field :: "'a field \<Rightarrow> 'a field \<Rightarrow> 'a field" where
  "spread_field x y = (case y of Absent \<Rightarrow> x | Undefined \<Rightarrow> Undefined | Defined v \<Rightarrow> Defined v)"

definition spread :: "WorkflowConfig \<Rightarrow> WorkflowConfig \<Rightarrow> WorkflowConfig" where
  "spread a b =
     \<lparr>skipAssets = spread_field (skipAssets a) (skipAssets b),
      skipSEO = spread_field (skipSEO a) (skipSEO b),
      skipPerf = spread_field (skipPerf a) (skipPerf b),
      skipDeploy = spread_field (skipDeploy a) (skipDeploy b),
      autoFix = spread_field (autoFix a) (autoFix b),
      targetScore = spread_field (targetScore a) (targetScore b),
      production = spread_field (production a) (production b)\<rparr>"

text \<open>
  The truth value of an optional boolean, as \<open>!x\<close> and \<open>x || false\<close> take it: a missing
  property and \<open>undefined\<close> are falsy.
\<close>

definition truthy :: "bool field \<Rightarrow> bool" where
  "truthy b = (case b of Absent \<Rightarrow> False | Undefined \<Rightarrow> False | Defined v \<Rightarrow> v)"

record Summary =
  sm_assetsGenerated :: int
  sm_seoScore :: int
  sm_performanceScore :: int
  sm_launchScore :: int
  sm_readyToLaunch :: bool

record WorkflowResult =
  wr_steps :: "WorkflowStep list"
  wr_overallSuccess :: bool
  wr_totalDuration :: int
  wr_launchChecklist :: "LaunchChecklist option"
  wr_deploymentUrl :: "string option"
  wr_summary :: Summary

section \<open>The orchestrator: what a run observes\<close>

text \<open>
  The collaborators of a run, as the answers they give during it: \<open>analyzeImages\<close> (its
  \<open>totalImages\<close>), the two calls of \<open>optimizeImages\<close> (the \<open>savings\<close> of the returned
  results), the framework detected and the files found by \<open>checkFileExists\<close> (which
  catches every error) in the SEO step, the project as the launch checklist sees it, and
  the clock: the values of \<open>new Date()\<close> at the start and the end of the step of a given
  id and inside \<open>runLaunchChecklist\<close>, and of \<open>Date.now()\<close> at both ends of the run.
\<close>

record workflow_env =
  analyzeImages :: "thrown + int"
  optimizeImages_assets :: "thrown + int list"
  optimizeImages_perf :: "thrown + int list"
  seo_detectFramework :: Framework
  checkFileExists :: "string \<Rightarrow> bool"
  launch_project :: project
  startOf :: "string \<Rightarrow> int"
  endOf :: "string \<Rightarrow> int"
  checklist_now :: int
  run_start :: int
  run_end :: int

section \<open>The orchestrator: the five steps\<close>

text \<open>
  Every step function has the same frame: the step starts as \<open>running\<close>, a \<open>try\<close> block
  computes its status and result, the \<open>catch\<close> block records \<open>failed\<close> and
  \<open>String(error)\<close>, and the end time and the duration are set after both. In each
  \<open>try\<close> block the assignments to the step come after the last call that can throw, so
  the \<open>catch\<close> block sees the step as it was created.
\<close>

definition new_step :: "string \<Rightarrow> string \<Rightarrow> string \<Rightarrow> int \<Rightarrow> WorkflowStep" where
  "new_step i n d t =
     \<lparr>step_id = i, step_name = n, step_description = d, step_status = Running,
      step_startTime = Some t, step_endTime = None, step_duration = None,
      step_error = None, step_result = None\<rparr>"

definition try_catch :: "WorkflowStep \<Rightarrow> thrown + WorkflowStep \<Rightarrow> WorkflowStep" where
  "try_catch step body =
     (case body of
        Inr step' \<Rightarrow> step'
      | Inl error \<Rightarrow> step\<lparr>step_status := Failed, step_error := Some (String_of_error error)\<rparr>)"

definition finish_step :: "WorkflowStep \<Rightarrow> int \<Rightarrow> WorkflowStep" where
  "finish_step step t =
     step\<lparr>step_endTime := Some t,
          step_duration := map_option (\<lambda>t0. t - t0) (step_startTime step)\<rparr>"

definition runAssetGeneration :: "workflow_env \<Rightarrow> WorkflowStep" where
  "runAssetGeneration env =
     (let step = new_step ''assets'' ''Asset Generation''
                   ''Generate favicons, OG images, and PWA icons'' (startOf env ''assets'');
          step = try_catch step
            (await (analyzeImages env) (\<lambda>totalImages.
               if totalImages > 0
               then await (optimizeImages_assets env) (\<lambda>results.
                      Inr (step\<lparr>step_status := Completed,
                                step_result := Some (AssetsResult (int (length results))
                                  (Some (fold (\<lambda>r sum. sum + r) results 0)))\<rparr>))
               else Inr (step\<lparr>step_status := Skipped,
                              step_result := Some (AssetsResult 0 None)\<rparr>)))
      in finish_step step (endOf env ''assets''))"

definition runSEOOptimization :: "workflow_env \<Rightarrow> WorkflowStep" where
  "runSEOOptimization env =
     (let step = new_step ''seo'' ''SEO Optimization''
                   ''Optimize meta tags, sitemap, and robots.txt'' (startOf env ''seo'');
          step = try_catch step
            (let detection = seo_detectFramework env;
                 seoScore = 0; itemsFound = 0;
                 sitemapExists =
                   (if detection = NextApp then checkFileExists env ''app/sitemap.ts''
                    else checkFileExists env ''public/sitemap.xml'');
                 (itemsFound, seoScore) =
                   (if sitemapExists then (itemsFound + 1, seoScore + 25)
                    else (itemsFound, seoScore));
                 robotsExists = checkFileExists env ''public/robots.txt'';
                 (itemsFound, seoScore) =
                   (if robotsExists then (itemsFound + 1, seoScore + 25)
                    else (itemsFound, seoScore));
                 manifestExists = checkFileExists env ''public/manifest.json'';
                 (itemsFound, seoScore) =
                   (if manifestExists then (itemsFound + 1, seoScore + 25)
                    else (itemsFound, seoScore));
                 (itemsFound, seoScore) =
                   (if detection = NextApp \<and> checkFileExists env ''app/layout.tsx''
                    then (itemsFound + 1, seoScore + 25)
                    else (itemsFound, seoScore))
             in Inr (step\<lparr>step_status := Completed,
                          step_result := Some (SeoResult seoScore itemsFound 4)\<rparr>))
      in finish_step step (endOf env ''seo''))"

definition runPerformanceOptimization :: "workflow_env \<Rightarrow> WorkflowConfig \<Rightarrow> WorkflowStep" where
  "runPerformanceOptimization env config =
     (let step = new_step ''performance'' ''Performance Optimization''
                   ''Optimize images, bundle, and configuration'' (startOf env ''performance'');
          step = try_catch step
            (await (optimizeImages_perf env) (\<lambda>imageResults.
               let bytesSaved = fold (\<lambda>r sum. sum + r) imageResults 0;
                   performanceScore = 70;
                   performanceScore =
                     (if length imageResults > 0 then performanceScore + 10
                      else performanceScore);
                   performanceScore =
                     (if bytesSaved > 1000000 then performanceScore + 10
                      else performanceScore)
               in Inr (step\<lparr>step_status := Completed,
                            step_result := Some (PerfResult performanceScore
                              (int (length imageResults)) bytesSaved)\<rparr>)))
      in finish_step step (endOf env ''performance''))"

definition runLaunchChecklistValidation :: "workflow_env \<Rightarrow> WorkflowStep" where
  "runLaunchChecklistValidation env =
     (let step = new_step ''launch-checklist'' ''Launch Checklist''
                   ''Validate project readiness for launch'' (startOf env ''launch-checklist'');
          step = try_catch step
            (await (runLaunchChecklist (launch_project env) (checklist_now env)) (\<lambda>checklist.
               Inr (step\<lparr>step_status := Completed,
                         step_result := Some (ChecklistResult checklist)\<rparr>)))
      in finish_step step (endOf env ''launch-checklist''))"

definition runDeployment :: "workflow_env \<Rightarrow> bool \<Rightarrow> WorkflowStep" where
  "runDeployment env isProduction =
     (let step = new_step ''deployment'' ''Deployment''
                   (if isProduction then ''Deploy to production'' else ''Deploy to preview'')
                   (startOf env ''deployment'');
          step = try_catch step
            (Inr (step\<lparr>step_status := Skipped,
                      step_result := Some (DeployResult ''https://your-app.vercel.app'' True)\<rparr>))
      in finish_step step (endOf env ''deployment''))"

section \<open>The orchestrator: runCompleteWorkflow\<close>

text \<open>
  \<open>steps[i]\<close> is \<open>undefined\<close> beyond the end of the array, and \<open>x?.result?.field\<close> is
  \<open>undefined\<close> when the step, its result or the field is missing; \<open>v || 0\<close> is 0 for
  \<open>undefined\<close>, \<open>NaN\<close> and 0.
\<close>

definition at_index :: "'a list \<Rightarrow> nat \<Rightarrow> 'a option" where
  "at_index xs i = (if i < length xs then Some (xs ! i) else None)"

definition result_of :: "WorkflowStep option \<Rightarrow> StepResult option" where
  "result_of s = (case s of None \<Rightarrow> None | Some step \<Rightarrow> step_result step)"

fun assetsGenerated_of :: "StepResult option \<Rightarrow> int option" where
  "assetsGenerated_of (Some (AssetsResult n _)) = Some n"
| "assetsGenerated_of _ = None"

fun seoScore_of :: "StepResult option \<Rightarrow> int option" where
  "seoScore_of (Some (SeoResult n _ _)) = Some n"
| "seoScore_of _ = None"

fun performanceScore_of :: "StepResult option \<Rightarrow> int option" where
  "performanceScore_of (Some (PerfResult n _ _)) = Some n"
| "performanceScore_of _ = None"

fun url_of :: "StepResult option \<Rightarrow> string option" where
  "url_of (Some (DeployResult u _)) = Some u"
| "url_of _ = None"

fun as_LaunchChecklist :: "StepResult option \<Rightarrow> LaunchChecklist option" where
  "as_LaunchChecklist (Some (ChecklistResult c)) = Some c"
| "as_LaunchChecklist _ = None"

definition or_zero :: "int option \<Rightarrow> int" where
  "or_zero v = (case v of None \<Rightarrow> 0 | Some n \<Rightarrow> n)"

definition runCompleteWorkflow :: "workflow_env \<Rightarrow> WorkflowConfig \<Rightarrow> WorkflowResult" where
  "runCompleteWorkflow env config =
     (let finalConfig = spread DEFAULT_CONFIG config;
          startTime = run_start env;
          steps = [];
          steps = (if \<not> truthy (skipAssets finalConfig)
                   then steps @ [runAssetGeneration env] else steps);
          steps = (if \<not> truthy (skipSEO finalConfig)
                   then steps @ [runSEOOptimization env] else steps);
          steps = (if \<not> truthy (skipPerf finalConfig)
                   then steps @ [runPerformanceOptimization env finalConfig] else steps);
          checklistStep = runLaunchChecklistValidation env;
          steps = steps @ [checklistStep];
          launchChecklist = as_LaunchChecklist (step_result checklistStep);
          ready = (case launchChecklist of None \<Rightarrow> False | Some c \<Rightarrow> lc_readyToLaunch c);
          (steps, deploymentUrl) =
            (if \<not> truthy (skipDeploy finalConfig) \<and> ready
             then let deployStep = runDeployment env (truthy (production finalConfig))
                  in (steps @ [deployStep], url_of (step_result deployStep))
             else (steps, None));
          totalDuration = run_end env - startTime;
          overallSuccess =
            list_all (\<lambda>s. step_status s = Completed \<or> step_status s = Skipped) steps;
          summary =
            \<lparr>sm_assetsGenerated = or_zero (assetsGenerated_of (result_of (at_index steps 0))),
             sm_seoScore = or_zero (seoScore_of (result_of (at_index steps 1))),
             sm_performanceScore = or_zero (performanceScore_of (result_of (at_index steps 2))),
             sm_launchScore =
               or_zero (case launchChecklist of None \<Rightarrow> None | Some c \<Rightarrow> lc_overallScore c),
             sm_readyToLaunch = ready\<rparr>
      in \<lparr>wr_steps = steps, wr_overallSuccess = overallSuccess,
          wr_totalDuration = totalDuration, wr_launchChecklist = launchChecklist,
          wr_deploymentUrl = deploymentUrl, wr_summary = summary\<rparr>)"

section \<open>The workflow state manager\<close>

datatype WorkflowStatus = InProgress | WorkflowCompleted | WorkflowFailed | Cancelled

record 'c WorkflowState =
  ws_id :: string
  ws_projectRoot :: string
  ws_startTime :: int
  ws_lastUpdate :: int
  ws_status :: WorkflowStatus
  ws_currentStep :: int
  ws_totalSteps :: int
  ws_steps :: "WorkflowStep list"
  ws_config :: 'c

subsection \<open>saveToHistory\<close>

record StepSummary =
  ss_id :: string
  ss_name :: string
  ss_status :: StepStatus
  ss_duration :: "int option"

record HistoryEntry =
  he_timestamp :: int
  he_duration :: int
  he_success :: bool
  he_summary :: Summary
  he_steps :: "StepSummary list"

text \<open>
  What \<open>JSON.parse\<close> returns for the content of the history file, when it returns: an
  array of entries, \<open>null\<close>, or another value that is not an array and so has no
  \<open>unshift\<close> method.
\<close>

datatype parsed_history = JsonArray "HistoryEntry list" | JsonNull | JsonOther

text \<open>
  The directory \<open>.ship-toolkit\<close> of a project as the state manager meets it: whether
  \<open>existsSync\<close> finds the directory and the history file, what \<open>fs.readFile\<close> delivers
  for the history file and what \<open>JSON.parse\<close> makes of a content, the paths of the two
  files, and the errors with which \<open>fs.mkdir\<close> and \<open>fs.writeFile\<close> reject for a reason
  of their own, if they do. A file exists only in an existing directory.
\<close>

record history_env =
  stateDir_exists :: bool
  history_exists :: bool
  history_readFile :: "thrown + string"
  JSON_parse :: "string \<Rightarrow> thrown + parsed_history"
  statePath :: string
  historyPath :: string
  mkdir_rejects :: "thrown option"
  history_writeFile :: "thrown option"

text \<open>
  \<open>fs.writeFile\<close> creates the file but not its directory: without the directory it
  rejects with \<open>ENOENT\<close>, whose message names the path in single quotes. The result of
  a write that succeeds is the content written. \<open>fs.mkdir\<close> with \<open>recursive: true\<close>
  leaves the directory in existence.
\<close>

definition ENOENT :: "string \<Rightarrow> thrown" where
  "ENOENT path =
     \<lparr>err_name = ''Error'',
      err_message = ''ENOENT: no such file or directory, open '' @ [CHR 0x27] @ path @ [CHR 0x27]\<rparr>"

definition writeFile :: "history_env \<Rightarrow> string \<Rightarrow> 'a \<Rightarrow> thrown + 'a" where
  "writeFile env path content =
     (if \<not> stateDir_exists env then Inl (ENOENT path)
      else case history_writeFile env of Some e \<Rightarrow> Inl e | None \<Rightarrow> Inr content)"

definition mkdir :: "history_env \<Rightarrow> thrown + history_env" where
  "mkdir env =
     (case mkdir_rejects env of
        Some e \<Rightarrow> Inl e
      | None \<Rightarrow> Inr (env\<lparr>stateDir_exists := True\<rparr>))"

text \<open>
  \<open>saveWorkflowState\<close> creates the directory when it is missing and writes the state;
  the result is the directory after the call and the state written.
\<close>

definition saveWorkflowState ::
  "history_env \<Rightarrow> 'c WorkflowState \<Rightarrow> thrown + history_env \<times> 'c WorkflowState" where
  "saveWorkflowState env state =
     await (if \<not> stateDir_exists env then mkdir env else Inr env) (\<lambda>env.
     await (writeFile env (statePath env) state) (\<lambda>written.
     Inr (env, written)))"

text \<open>The object that \<open>saveToHistory\<close> passes to \<open>unshift\<close>; \<open>now\<close> is \<open>new Date()\<close>.\<close>

definition history_entry :: "int \<Rightarrow> WorkflowResult \<Rightarrow> HistoryEntry" where
  "history_entry now result =
     \<lparr>he_timestamp = now,
      he_duration = wr_totalDuration result,
      he_success = wr_overallSuccess result,
      he_summary = wr_summary result,
      he_steps = map (\<lambda>s. \<lparr>ss_id = step_id s, ss_name = step_name s,
                            ss_status = step_status s, ss_duration = step_duration s\<rparr>)
                   (wr_steps result)\<rparr>"

text \<open>
  \<open>saveToHistory\<close> has no \<open>mkdir\<close>. The result is the array written to the history file,
  or the value thrown: the \<open>TypeError\<close> of calling \<open>unshift\<close> on a value that has
  none, or the error of the write.
\<close>

definition saveToHistory :: "history_env \<Rightarrow> int \<Rightarrow> WorkflowResult \<Rightarrow> thrown + HistoryEntry list" where
  "saveToHistory env now result =
     (let history = JsonArray [];
          history =
            (if history_exists env
             then (case await (history_readFile env) (\<lambda>content. JSON_parse env content) of
                     Inr parsed \<Rightarrow> parsed
                   | Inl _ \<Rightarrow> JsonArray [])
             else history)
      in case history of
           JsonNull \<Rightarrow>
             Inl \<lparr>err_name = ''TypeError'',
                  err_message = ''Cannot read properties of null (reading '' @ [CHR 0x27]
                    @ ''unshift'' @ [CHR 0x27] @ '')''\<rparr>
         | JsonOther \<Rightarrow>
             Inl \<lparr>err_name = ''TypeError'', err_message = ''history.unshift is not a function''\<rparr>
         | JsonArray entries \<Rightarrow>
             let entries = history_entry now result # entries;
                 entries = take 10 entries
             in writeFile env (historyPath env) entries)"

subsection \<open>createWorkflowState, updateWorkflowState, canResumeWorkflow\<close>

text \<open>
  \<open>createWorkflowState\<close> is a single \<open>return\<close> of an object literal; it has no \<open>throw\<close>
  statement and calls nothing that throws. Its result is written as the \<open>Inr\<close> of the
  result type of functions that can throw, so that a claim about its throwing can be
  stated. The id made from \<open>Date.now()\<close> and \<open>Math.random()\<close> and the values of the two
  \<open>new Date()\<close> are parameters.
\<close>

definition createWorkflowState ::
  "string \<Rightarrow> int \<Rightarrow> 'c \<Rightarrow> string \<Rightarrow> int \<Rightarrow> int \<Rightarrow> thrown + 'c WorkflowState" where
  "createWorkflowState projectRoot totalSteps config generatedId now1 now2 =
     Inr \<lparr>ws_id = generatedId, ws_projectRoot = projectRoot,
          ws_startTime = now1, ws_lastUpdate = now2,
          ws_status = InProgress, ws_currentStep = 0, ws_totalSteps = totalSteps,
          ws_steps = [], ws_config = config\<rparr>"

text \<open>\<open>Array.prototype.findIndex\<close>: the first index whose element satisfies, or -1.\<close>

fun findIndex :: "('a \<Rightarrow> bool) \<Rightarrow> 'a list \<Rightarrow> int" where
  "findIndex P [] = -1"
| "findIndex P (x # xs) =
     (if P x then 0 else let i = findIndex P xs in if i < 0 then -1 else i + 1)"

definition updateWorkflowState ::
  "'c WorkflowState \<Rightarrow> WorkflowStep \<Rightarrow> int \<Rightarrow> 'c WorkflowState" where
  "updateWorkflowState state step now =
     (let existingIndex = findIndex (\<lambda>s. step_id s = step_id step) (ws_steps state);
          state = (if existingIndex \<ge> 0
                   then state\<lparr>ws_steps := (ws_steps state)[nat existingIndex := step]\<rparr>
                   else state\<lparr>ws_steps := ws_steps state @ [step]\<rparr>);
          state = state\<lparr>ws_lastUpdate := now\<rparr>;
          state = (if step_status step = Completed \<or> step_status step = Failed
                      \<or> step_status step = Skipped
                   then state\<lparr>ws_currentStep :=
                          int (length (filter (\<lambda>s. step_status s = Completed
                                 \<or> step_status s = Failed \<or> step_status s = Skipped)
                               (ws_steps state)))\<rparr>
                   else state);
          state = (if ws_currentStep state \<ge> ws_totalSteps state
                   then let hasFailures = list_ex (\<lambda>s. step_status s = Failed) (ws_steps state)
                        in state\<lparr>ws_status :=
                             (if hasFailures then WorkflowFailed else WorkflowCompleted)\<rparr>
                   else state)
      in state)"

text \<open>\<open>now\<close> is the value of \<open>Date.now()\<close>; times are in milliseconds.\<close>

definition canResumeWorkflow :: "int \<Rightarrow> 'c WorkflowState \<Rightarrow> bool" where
  "canResumeWorkflow now state =
     (ws_status state = InProgress \<and>
      ws_currentStep state < ws_totalSteps state \<and>
      now - ws_lastUpdate state < 24 * 60 * 60 * 1000)"

section \<open>Notions used to state the properties\<close>

text \<open>
  The score of a list of statuses, in integer arithmetic: the section score depends on
  the statuses of the items only.
\<close>

definition score_of_statuses :: "CheckStatus list \<Rightarrow> int" where
  "score_of_statuses sts =
     (if sts = [] then 100
      else (2 * sum_list (map status_points sts) + int (length sts)) div (2 * int (length sts)))"

text \<open>
  The eight check functions in the order in which \<open>runLaunchChecklist\<close> awaits them, and
  the value thrown by the first of a list of results that is a thrown value.
\<close>

definition providers :: "project \<Rightarrow> (thrown + ChecklistSection) list" where
  "providers p =
     [checkAssets p, checkSEO p, checkPerformance p, checkSecurity p,
      checkFunctionality p, checkAnalytics p, checkDocumentation p, checkLegal p]"

fun first_thrown :: "(thrown + 'a) list \<Rightarrow> thrown option" where
  "first_thrown [] = None"
| "first_thrown (Inl e # rs) = Some e"
| "first_thrown (Inr x # rs) = first_thrown rs"

text \<open>A step recorded as failed with the text of the thrown value.\<close>

definition failed_with :: "WorkflowStep \<Rightarrow> thrown \<Rightarrow> bool" where
  "failed_with s e = (step_status s = Failed \<and> step_error s = Some (String_of_error e))"

text \<open>
  The condition under which \<open>runCompleteWorkflow\<close> enters the deployment step, in terms of
  what the launch checklist does: \<open>skipDeploy\<close> is falsy and \<open>runLaunchChecklist\<close> has
  returned a checklist that is ready to launch.
\<close>

definition deploy_gate :: "workflow_env \<Rightarrow> WorkflowConfig \<Rightarrow> bool" where
  "deploy_gate env fc =
     (\<not> truthy (skipDeploy fc) \<and>
      (case runLaunchChecklist (launch_project env) (checklist_now env) of
         Inl e \<Rightarrow> False | Inr cl \<Rightarrow> lc_readyToLaunch cl))"

text \<open>The terminal statuses of a step.\<close>

definition is_terminal :: "StepStatus \<Rightarrow> bool" where
  "is_terminal st = (st = Completed \<or> st = Failed \<or> st = Skipped)"

text \<open>
  Upsert by id, in the specification's words: the first step with the same id is
  replaced, and the step is appended when there is none.
\<close>

fun upsert :: "WorkflowStep \<Rightarrow> WorkflowStep list \<Rightarrow> WorkflowStep list" where
  "upsert step [] = [step]"
| "upsert step (s # ss) = (if step_id s = step_id step then step # ss else s # upsert step ss)"

section \<open>Example projects, runs and states\<close>

text \<open>The error of reading a path that is a directory.\<close>

definition EISDIR :: thrown where
  "EISDIR = \<lparr>err_name = ''Error'',
             err_message = ''EISDIR: illegal operation on a directory, read''\<rparr>"

text \<open>
  Three projects: an empty directory; a static site with a favicon, an Open Graph image, a
  sitemap, a robots.txt and a \<open>.gitignore\<close> that lists \<open>.env\<close>; and the same site
  where \<open>.gitignore\<close> exists but cannot be read.
\<close>

definition empty_project :: project where
  "empty_project =
     \<lparr>existsSync = (\<lambda>f. False), glob = (\<lambda>pat. Inr []), readFile = (\<lambda>f. Inr []),
      detectFramework = StaticHtml\<rparr>"

definition ready_project :: project where
  "ready_project =
     \<lparr>existsSync = (\<lambda>f. f = ''public/favicon.ico'' \<or> f = ''public/sitemap.xml''
                        \<or> f = ''public/robots.txt'' \<or> f = ''.gitignore''),
      glob = (\<lambda>pat. if pat = ''public/*og-image*.{png,jpg}''
                     then Inr [''public/og-image.png''] else Inr []),
      readFile = (\<lambda>f. Inr ''node_modules .env''),
      detectFramework = StaticHtml\<rparr>"

definition unreadable_project :: project where
  "unreadable_project = ready_project\<lparr>readFile := (\<lambda>f. Inl EISDIR)\<rparr>"

text \<open>
  Sections outside any project: their items are not required and have the given
  statuses, and their score is the one \<open>calculateSectionScore\<close> gives.
\<close>

definition optional_item :: "CheckStatus \<Rightarrow> ChecklistItem" where
  "optional_item st =
     \<lparr>item_id = ''check'', item_name = ''Check'', item_status = st, item_required = False,
      item_message = None, item_fix = None, item_automated = Some False\<rparr>"

definition section_of :: "CheckStatus list \<Rightarrow> ChecklistSection" where
  "section_of sts =
     \<lparr>section_name = ''Section'', section_items = map optional_item sts,
      section_score = calculateSectionScore (map optional_item sts),
      section_required = False\<rparr>"

definition empty_checklist :: LaunchChecklist where
  "empty_checklist = projr (runLaunchChecklist empty_project 0)"

definition ready_checklist :: LaunchChecklist where
  "ready_checklist = projr (runLaunchChecklist ready_project 0)"

text \<open>
  Runs of the workflow on the second project: no image is found, so the asset step is
  skipped. In \<open>perf_failing_env\<close> the image optimizer of the performance step throws,
  in \<open>assets_failing_env\<close> the image analysis of the asset step throws, and in
  \<open>throwing_env\<close> the project is the one with the unreadable \<open>.gitignore\<close>.
  \<open>deploy_config\<close> is \<open>{ skipDeploy: false }\<close>, \<open>empty_config\<close> is \<open>{}\<close> and
  \<open>undefined_deploy_config\<close> is \<open>{ skipDeploy: undefined }\<close>.
\<close>

definition demo_env :: workflow_env where
  "demo_env =
     \<lparr>analyzeImages = Inr 0, optimizeImages_assets = Inr [], optimizeImages_perf = Inr [],
      seo_detectFramework = StaticHtml, checkFileExists = (\<lambda>f. False),
      launch_project = ready_project,
      startOf = (\<lambda>i. 0), endOf = (\<lambda>i. 0), checklist_now = 0,
      run_start = 0, run_end = 0\<rparr>"

definition perf_failing_env :: workflow_env where
  "perf_failing_env = demo_env\<lparr>optimizeImages_perf := Inl EISDIR\<rparr>"

definition assets_failing_env :: workflow_env where
  "assets_failing_env = demo_env\<lparr>analyzeImages := Inl EISDIR\<rparr>"

definition throwing_env :: workflow_env where
  "throwing_env = demo_env\<lparr>launch_project := unreadable_project\<rparr>"

definition deploy_config :: WorkflowConfig where
  "deploy_config =
     \<lparr>skipAssets = Absent, skipSEO = Absent, skipPerf = Absent, skipDeploy = Defined False,
      autoFix = Absent, targetScore = Absent, production = Absent\<rparr>"

definition empty_config :: WorkflowConfig where
  "empty_config =
     \<lparr>skipAssets = Absent, skipSEO = Absent, skipPerf = Absent, skipDeploy = Absent,
      autoFix = Absent, targetScore = Absent, production = Absent\<rparr>"

definition undefined_deploy_config :: WorkflowConfig where
  "undefined_deploy_config = empty_config\<lparr>skipDeploy := Undefined\<rparr>"

text \<open>A workflow of three steps after its first step \<open>a\<close> has completed.\<close>

definition step_a :: "StepStatus \<Rightarrow> WorkflowStep" where
  "step_a st =
     \<lparr>step_id = ''a'', step_name = ''A'', step_description = ''first step'',
      step_status = st, step_startTime = Some 0, step_endTime = None,
      step_duration = None, step_error = None, step_result = None\<rparr>"

definition fresh_state :: "unit WorkflowState" where
  "fresh_state = projr (createWorkflowState ''/project'' 3 () ''workflow-0-abcdefghi'' 0 0)"

definition state_one :: "unit WorkflowState" where
  "state_one = updateWorkflowState fresh_state (step_a Completed) 1"

text \<open>
  The directory \<open>.ship-toolkit\<close> of the project \<open>/project\<close>: with a history file that
  holds a given array; without a history file; with a history file whose content
  \<open>JSON.parse\<close> rejects; and, in \<open>first_run\<close>, the project before anything was saved,
  when the directory does not exist.
\<close>

definition history_of :: "HistoryEntry list \<Rightarrow> history_env" where
  "history_of h =
     \<lparr>stateDir_exists = True, history_exists = True, history_readFile = Inr ''[...]'',
      JSON_parse = (\<lambda>content. Inr (JsonArray h)),
      statePath = ''/project/.ship-toolkit/workflow-state.json'',
      historyPath = ''/project/.ship-toolkit/workflow-history.json'',
      mkdir_rejects = None, history_writeFile = None\<rparr>"

definition no_history :: history_env where
  "no_history = (history_of [])\<lparr>history_exists := False, history_readFile := Inl EISDIR\<rparr>"

definition corrupt_history :: history_env where
  "corrupt_history =
     (history_of [])\<lparr>history_readFile := Inr ''[{'',
        JSON_parse := (\<lambda>content. Inl \<lparr>err_name = ''SyntaxError'',
                                        err_message = ''Unexpected end of JSON input''\<rparr>)\<rparr>"

definition first_run :: history_env where
  "first_run = no_history\<lparr>stateDir_exists := False\<rparr>"

definition old_entry :: "int \<Rightarrow> HistoryEntry" where
  "old_entry t =
     \<lparr>he_timestamp = t, he_duration = 0, he_success = True,
      he_summary = \<lparr>sm_assetsGenerated = 0, sm_seoScore = 0, sm_performanceScore = 0,
                    sm_launchScore = 0, sm_readyToLaunch = False\<rparr>,
      he_steps = []\<rparr>"

definition ten_entries :: "HistoryEntry list" where
  "ten_entries = map old_entry [10, 9, 8, 7, 6, 5, 4, 3, 2, 1]"

definition demo_result :: WorkflowResult where
  "demo_result =
     \<lparr>wr_steps = [step_a Completed], wr_overallSuccess = True, wr_totalDuration = 7,
      wr_launchChecklist = None, wr_deploymentUrl = None,
      wr_summary = \<lparr>sm_assetsGenerated = 0, sm_seoScore = 0, sm_performanceScore = 0,
                    sm_launchScore = 0, sm_readyToLaunch = False\<rparr>\<rparr>"

section \<open>Section scores\<close>

lemma sum_status_points:
  "sum_list (map (\<lambda>i. status_points (item_status i)) items) =
     int (length (filter (\<lambda>i. item_status i = Pass) items)) * 100
     + int (length (filter (\<lambda>i. item_status i = Warning) items)) * 50
     + int (length (filter (\<lambda>i. item_status i = Skip) items)) * 75"
proof (induction items)
  case Nil
  show ?case by simp
next
  case (Cons i items)
  then show ?case by (cases "item_status i") simp_all
qed

lemma Math_round_quotient:
  assumes "0 < d"
  shows "Math_round (of_int n / of_int d) = (2 * n + d) div (2 * d)"
proof -
  have "(of_int n / of_int d + 1 / 2 :: rat) = of_int (2 * n + d) / of_int (2 * d)"
    using assms by (simp add: field_simps)
  then show ?thesis
    unfolding Math_round_def by (simp only: floor_divide_of_int_eq)
qed

lemma calculateSectionScore_div:
  assumes "items \<noteq> []"
  shows "calculateSectionScore items =
     (2 * (int (length (filter (\<lambda>i. item_status i = Pass) items)) * 100
         + int (length (filter (\<lambda>i. item_status i = Warning) items)) * 50
         + int (length (filter (\<lambda>i. item_status i = Skip) items)) * 75)
       + int (length items)) div (2 * int (length items))"
proof -
  from assms have pos: "0 < int (length items)" by simp
  show ?thesis
    unfolding calculateSectionScore_def Let_def
    using assms by (simp only: Math_round_quotient [OF pos] length_0_conv if_False)
qed

lemma calculateSectionScore_statuses:
  "calculateSectionScore items = score_of_statuses (map item_status items)"
proof (cases "items = []")
  case True
  then show ?thesis by (simp add: calculateSectionScore_def score_of_statuses_def)
next
  case False
  have "sum_list (map status_points (map item_status items)) =
        sum_list (map (\<lambda>i. status_points (item_status i)) items)"
    by (simp add: comp_def)
  with False show ?thesis
    by (simp only: calculateSectionScore_div [OF False] score_of_statuses_def
        sum_status_points map_is_Nil_conv if_False length_map)
qed

text \<open>
  Claim C1. For every list of checklist items, calculateSectionScore is the rounded mean of
  the items' points (pass 100, warning 50, skip 75, fail 0), and 100 on the empty list;
  the empty list scores exactly 100 and four items with the statuses pass, warning, skip
  and fail score exactly 56.
\<close>

theorem calculateSectionScore_is_rounded_mean:
  "calculateSectionScore items =
     (if items = [] then 100 else rounded_mean_of_points items)
   \<and> calculateSectionScore [] = 100
   \<and> calculateSectionScore
        [a\<lparr>item_status := Pass\<rparr>, b\<lparr>item_status := Warning\<rparr>,
         c\<lparr>item_status := Skip\<rparr>, d\<lparr>item_status := Fail\<rparr>] = 56"
proof (intro conjI)
  show "calculateSectionScore items =
     (if items = [] then 100 else rounded_mean_of_points items)"
    by (simp add: calculateSectionScore_def rounded_mean_of_points_def Let_def
        sum_status_points)
  show "calculateSectionScore [] = 100"
    by (simp add: calculateSectionScore_def)
  show "calculateSectionScore
        [a\<lparr>item_status := Pass\<rparr>, b\<lparr>item_status := Warning\<rparr>,
         c\<lparr>item_status := Skip\<rparr>, d\<lparr>item_status := Fail\<rparr>] = 56"
    by (simp add: calculateSectionScore_div)
qed

section \<open>The checklist that runLaunchChecklist assembles\<close>

lemma await_Inr [simp]: "await (Inr x) k = k x"
  by (simp add: await_def)

lemma await_Inl [simp]: "await (Inl e) k = Inl e"
  by (simp add: await_def)

lemma await_eq_Inr: "await m k = Inr y \<longleftrightarrow> (\<exists>x. m = Inr x \<and> k x = Inr y)"
  by (cases m) simp_all

lemma runLaunchChecklist_Inr:
  assumes "runLaunchChecklist p now = Inr cl"
  obtains s1 s2 s3 s4 s5 s6 s7 s8 where
    "checkAssets p = Inr s1" "checkSEO p = Inr s2" "checkPerformance p = Inr s3"
    "checkSecurity p = Inr s4" "checkFunctionality p = Inr s5" "checkAnalytics p = Inr s6"
    "checkDocumentation p = Inr s7" "checkLegal p = Inr s8"
    "cl = assembleChecklist [s1, s2, s3, s4, s5, s6, s7, s8] now"
  using assms unfolding runLaunchChecklist_def await_eq_Inr by auto

lemma fold_scores:
  "fold (\<lambda>s sum. sum + section_score s) sections a = a + sum_list (map section_score sections)"
  by (induction sections arbitrary: a) simp_all

lemma fold_collect_item:
  "fold collect_item items acc =
     (fst acc @ filter (\<lambda>i. item_status i = Fail \<and> item_required i) items,
      snd acc @ filter (\<lambda>i. item_status i = Warning) items)"
  by (induction items arbitrary: acc) (auto simp: collect_item_def)

lemma fold_collect_sections:
  "fold (\<lambda>section acc. fold collect_item (section_items section) acc) sections acc =
     (fst acc @ filter (\<lambda>i. item_status i = Fail \<and> item_required i)
                  (concat (map section_items sections)),
      snd acc @ filter (\<lambda>i. item_status i = Warning)
                  (concat (map section_items sections)))"
  by (induction sections arbitrary: acc) (simp_all add: fold_collect_item)

lemma assemble_sections [simp]: "lc_sections (assembleChecklist sections now) = sections"
  by (simp add: assembleChecklist_def Let_def)

lemma assemble_criticalIssues:
  "lc_criticalIssues (assembleChecklist sections now) =
     filter (\<lambda>i. item_status i = Fail \<and> item_required i) (concat (map section_items sections))"
  by (simp add: assembleChecklist_def Let_def fold_collect_sections)

lemma assemble_warnings:
  "lc_warnings (assembleChecklist sections now) =
     filter (\<lambda>i. item_status i = Warning) (concat (map section_items sections))"
  by (simp add: assembleChecklist_def Let_def fold_collect_sections)

lemma assemble_overallScore:
  "sections \<noteq> [] \<Longrightarrow>
   lc_overallScore (assembleChecklist sections now) =
     Some (Math_round (of_int (sum_list (map section_score sections))
                       / of_int (int (length sections))))"
  by (simp add: assembleChecklist_def Let_def fold_scores js_divide_def)

lemma assemble_overallScore_div:
  assumes ne: "sections \<noteq> []"
  shows "lc_overallScore (assembleChecklist sections now) =
     Some ((2 * sum_list (map section_score sections) + int (length sections))
           div (2 * int (length sections)))"
proof -
  from ne have pos: "0 < int (length sections)" by simp
  show ?thesis
    by (simp only: assemble_overallScore [OF ne] Math_round_quotient [OF pos])
qed

lemma assemble_readyToLaunch:
  "lc_readyToLaunch (assembleChecklist sections now) =
     (lc_criticalIssues (assembleChecklist sections now) = []
      \<and> js_ge (lc_overallScore (assembleChecklist sections now)) 70)"
  by (simp add: assembleChecklist_def Let_def)

lemma checkAssets_Inr:
  "checkAssets p = Inr s \<Longrightarrow> section_name s = ''Assets & Branding''"
  by (auto simp: checkAssets_def Let_def await_eq_Inr)

lemma checkSEO_Inr:
  "checkSEO p = Inr s \<Longrightarrow> section_name s = ''SEO Optimization''"
  by (auto simp: checkSEO_def Let_def await_eq_Inr)

lemma checkPerformance_Inr:
  "checkPerformance p = Inr s \<Longrightarrow> section_name s = ''Performance''"
  by (auto simp: checkPerformance_def Let_def await_eq_Inr)

lemma checkSecurity_Inr:
  "checkSecurity p = Inr s \<Longrightarrow> section_name s = ''Security''"
  by (auto simp: checkSecurity_def Let_def await_eq_Inr)

lemma checkFunctionality_Inr:
  "checkFunctionality p = Inr s \<Longrightarrow> section_name s = ''Functionality''"
  by (auto simp: checkFunctionality_def Let_def)

lemma checkAnalytics_Inr:
  "checkAnalytics p = Inr s \<Longrightarrow> section_name s = ''Analytics & Monitoring''"
  by (auto simp: checkAnalytics_def Let_def)

lemma checkDocumentation_Inr:
  "checkDocumentation p = Inr s \<Longrightarrow> section_name s = ''Documentation''"
  by (auto simp: checkDocumentation_def Let_def)

lemma checkLegal_Inr:
  "checkLegal p = Inr s \<Longrightarrow> section_name s = ''Legal & Compliance''"
  by (auto simp: checkLegal_def Let_def)

lemma runLaunchChecklist_first_thrown:
  "runLaunchChecklist p now = Inl e \<longleftrightarrow> first_thrown (providers p) = Some e"
  unfolding runLaunchChecklist_def providers_def
  apply (cases "checkAssets p"; simp)
  apply (cases "checkSEO p"; simp)
  apply (cases "checkPerformance p"; simp)
  apply (cases "checkSecurity p"; simp)
  apply (cases "checkFunctionality p"; simp)
  apply (cases "checkAnalytics p"; simp)
  apply (cases "checkDocumentation p"; simp)
  apply (cases "checkLegal p"; simp)
  done

lemma runLaunchChecklist_returns_iff:
  "\<not> isl (runLaunchChecklist p now) \<longleftrightarrow> first_thrown (providers p) = None"
proof (cases "runLaunchChecklist p now")
  case (Inl e)
  then show ?thesis using runLaunchChecklist_first_thrown [of p now e] by simp
next
  case (Inr cl)
  have "first_thrown (providers p) \<noteq> Some e" for e
    using runLaunchChecklist_first_thrown [of p now e] Inr by simp
  then show ?thesis using Inr by (cases "first_thrown (providers p)") auto
qed

lemma first_thrown_None:
  "(\<And>r. r \<in> set rs \<Longrightarrow> \<not> isl r) \<Longrightarrow> first_thrown rs = None"
proof (induction rs)
  case Nil
  show ?case by simp
next
  case (Cons r rs)
  from Cons.prems [of r] obtain x where "r = Inr x" by (cases r) auto
  with Cons show ?case by simp
qed

lemma providers_total:
  assumes g: "\<And>pat. \<not> isl (glob p pat)" and r: "\<And>f. \<not> isl (readFile p f)"
  shows "first_thrown (providers p) = None"
proof -
  have gl: "\<exists>l. glob p pat = Inr l" for pat
    using g [of pat] by (cases "glob p pat") auto
  have rd: "\<exists>c. readFile p f = Inr c" for f
    using r [of f] by (cases "readFile p f") auto
  obtain og tw pwa webp where globs:
    "glob p ''public/*og-image*.{png,jpg}'' = Inr og"
    "glob p ''public/*twitter*.{png,jpg}'' = Inr tw"
    "glob p ''public/android-chrome-*.png'' = Inr pwa"
    "glob p ''public/**/*.webp'' = Inr webp"
    using gl by metis
  obtain layout config gitignore where reads:
    "readFile p ''app/layout.tsx'' = Inr layout"
    "readFile p ''next.config.js'' = Inr config"
    "readFile p ''.gitignore'' = Inr gitignore"
    using rd by metis
  have "\<not> isl (checkAssets p)"
    by (simp add: checkAssets_def Let_def globs)
  moreover have "\<not> isl (checkSEO p)"
    by (simp add: checkSEO_def Let_def reads)
  moreover have "\<not> isl (checkPerformance p)"
    by (simp add: checkPerformance_def Let_def globs reads)
  moreover have "\<not> isl (checkSecurity p)"
    by (simp add: checkSecurity_def Let_def reads)
  moreover have "\<not> isl (checkFunctionality p)"
    by (simp add: checkFunctionality_def Let_def)
  moreover have "\<not> isl (checkAnalytics p)"
    by (simp add: checkAnalytics_def Let_def)
  moreover have "\<not> isl (checkDocumentation p)"
    by (simp add: checkDocumentation_def Let_def)
  moreover have "\<not> isl (checkLegal p)"
    by (simp add: checkLegal_def Let_def)
  ultimately show ?thesis
    by (intro first_thrown_None) (auto simp: providers_def)
qed

section \<open>The example projects\<close>

lemma empty_sel:
  "existsSync empty_project f = False" "glob empty_project pat = Inr []"
  "readFile empty_project f = Inr []" "detectFramework empty_project = StaticHtml"
  by (simp_all add: empty_project_def)

lemma ready_sel:
  "existsSync ready_project f = (f = ''public/favicon.ico'' \<or> f = ''public/sitemap.xml''
                        \<or> f = ''public/robots.txt'' \<or> f = ''.gitignore'')"
  "glob ready_project pat = (if pat = ''public/*og-image*.{png,jpg}''
                     then Inr [''public/og-image.png''] else Inr [])"
  "readFile ready_project f = Inr ''node_modules .env''"
  "detectFramework ready_project = StaticHtml"
  by (simp_all add: ready_project_def)

lemma unreadable_sel:
  "existsSync unreadable_project f = existsSync ready_project f"
  "glob unreadable_project pat = glob ready_project pat"
  "readFile unreadable_project f = Inl EISDIR"
  "detectFramework unreadable_project = StaticHtml"
  by (simp_all add: unreadable_project_def ready_project_def)

lemmas score_eval = Let_def calculateSectionScore_statuses score_of_statuses_def

lemma includes_env: "String_includes ''node_modules .env'' ''.env''"
  by (simp add: String_includes_def sublist_Cons_right)

lemma empty_Assets:
  "\<exists>s. checkAssets empty_project = Inr s \<and> section_score s = 30
     \<and> map item_id (filter (\<lambda>i. item_status i = Fail \<and> item_required i)
           (section_items s)) = [''favicon'', ''og-images'']"
  by (simp add: checkAssets_def empty_sel score_eval)

lemma ready_Assets:
  "\<exists>s. checkAssets ready_project = Inr s \<and> section_score s = 70
     \<and> filter (\<lambda>i. item_status i = Fail \<and> item_required i) (section_items s) = []"
  by (simp add: checkAssets_def ready_sel score_eval includes_env)

lemma empty_SEO:
  "\<exists>s. checkSEO empty_project = Inr s \<and> section_score s = 40
     \<and> map item_id (filter (\<lambda>i. item_status i = Fail \<and> item_required i)
           (section_items s)) = [''sitemap'', ''robots'']"
  by (simp add: checkSEO_def empty_sel score_eval)

lemma ready_SEO:
  "\<exists>s. checkSEO ready_project = Inr s \<and> section_score s = 80
     \<and> filter (\<lambda>i. item_status i = Fail \<and> item_required i) (section_items s) = []"
  by (simp add: checkSEO_def ready_sel score_eval includes_env)

lemma empty_Performance:
  "\<exists>s. checkPerformance empty_project = Inr s \<and> section_score s = 63
     \<and> map item_id (filter (\<lambda>i. item_status i = Fail \<and> item_required i)
           (section_items s)) = []"
  by (simp add: checkPerformance_def empty_sel score_eval)

lemma ready_Performance:
  "\<exists>s. checkPerformance ready_project = Inr s \<and> section_score s = 63
     \<and> filter (\<lambda>i. item_status i = Fail \<and> item_required i) (section_items s) = []"
  by (simp add: checkPerformance_def ready_sel score_eval includes_env)

lemma empty_Security:
  "\<exists>s. checkSecurity empty_project = Inr s \<and> section_score s = 65
     \<and> map item_id (filter (\<lambda>i. item_status i = Fail \<and> item_required i)
           (section_items s)) = []"
  by (simp add: checkSecurity_def empty_sel score_eval)

lemma ready_Security:
  "\<exists>s. checkSecurity ready_project = Inr s \<and> section_score s = 75
     \<and> filter (\<lambda>i. item_status i = Fail \<and> item_required i) (section_items s) = []"
  by (simp add: checkSecurity_def ready_sel score_eval includes_env)

lemma empty_Functionality:
  "\<exists>s. checkFunctionality empty_project = Inr s \<and> section_score s = 70
     \<and> map item_id (filter (\<lambda>i. item_status i = Fail \<and> item_required i)
           (section_items s)) = []"
  by (simp add: checkFunctionality_def empty_sel score_eval)

lemma ready_Functionality:
  "\<exists>s. checkFunctionality ready_project = Inr s \<and> section_score s = 70
     \<and> filter (\<lambda>i. item_status i = Fail \<and> item_required i) (section_items s) = []"
  by (simp add: checkFunctionality_def ready_sel score_eval includes_env)

lemma empty_Analytics:
  "\<exists>s. checkAnalytics empty_project = Inr s \<and> section_score s = 75
     \<and> map item_id (filter (\<lambda>i. item_status i = Fail \<and> item_required i)
           (section_items s)) = []"
  by (simp add: checkAnalytics_def empty_sel score_eval)

lemma ready_Analytics:
  "\<exists>s. checkAnalytics ready_project = Inr s \<and> section_score s = 75
     \<and> filter (\<lambda>i. item_status i = Fail \<and> item_required i) (section_items s) = []"
  by (simp add: checkAnalytics_def ready_sel score_eval includes_env)

lemma empty_Documentation:
  "\<exists>s. checkDocumentation empty_project = Inr s \<and> section_score s = 67
     \<and> map item_id (filter (\<lambda>i. item_status i = Fail \<and> item_required i)
           (section_items s)) = []"
  by (simp add: checkDocumentation_def empty_sel score_eval)

lemma ready_Documentation:
  "\<exists>s. checkDocumentation ready_project = Inr s \<and> section_score s = 67
     \<and> filter (\<lambda>i. item_status i = Fail \<and> item_required i) (section_items s) = []"
  by (simp add: checkDocumentation_def ready_sel score_eval includes_env)

lemma empty_Legal:
  "\<exists>s. checkLegal empty_project = Inr s \<and> section_score s = 75
     \<and> map item_id (filter (\<lambda>i. item_status i = Fail \<and> item_required i)
           (section_items s)) = []"
  by (simp add: checkLegal_def empty_sel score_eval)

lemma ready_Legal:
  "\<exists>s. checkLegal ready_project = Inr s \<and> section_score s = 75
     \<and> filter (\<lambda>i. item_status i = Fail \<and> item_required i) (section_items s) = []"
  by (simp add: checkLegal_def ready_sel score_eval includes_env)

lemma empty_run:
  "runLaunchChecklist empty_project 0 = Inr empty_checklist"
  "lc_overallScore empty_checklist = Some 61"
  "map item_id (lc_criticalIssues empty_checklist) =
     [''favicon'', ''og-images'', ''sitemap'', ''robots'']"
proof -
  from empty_Assets obtain s1 where s1: "checkAssets empty_project = Inr s1"
    "section_score s1 = 30"
    "map item_id (filter (\<lambda>i. item_status i = Fail \<and> item_required i) (section_items s1)) = [''favicon'', ''og-images'']"
    by (elim exE conjE)
  from empty_SEO obtain s2 where s2: "checkSEO empty_project = Inr s2"
    "section_score s2 = 40"
    "map item_id (filter (\<lambda>i. item_status i = Fail \<and> item_required i) (section_items s2)) = [''sitemap'', ''robots'']"
    by (elim exE conjE)
  from empty_Performance obtain s3 where s3: "checkPerformance empty_project = Inr s3"
    "section_score s3 = 63"
    "map item_id (filter (\<lambda>i. item_status i = Fail \<and> item_required i) (section_items s3)) = []"
    by (elim exE conjE)
  from empty_Security obtain s4 where s4: "checkSecurity empty_project = Inr s4"
    "section_score s4 = 65"
    "map item_id (filter (\<lambda>i. item_status i = Fail \<and> item_required i) (section_items s4)) = []"
    by (elim exE conjE)
  from empty_Functionality obtain s5 where s5: "checkFunctionality empty_project = Inr s5"
    "section_score s5 = 70"
    "map item_id (filter (\<lambda>i. item_status i = Fail \<and> item_required i) (section_items s5)) = []"
    by (elim exE conjE)
  from empty_Analytics obtain s6 where s6: "checkAnalytics empty_project = Inr s6"
    "section_score s6 = 75"
    "map item_id (filter (\<lambda>i. item_status i = Fail \<and> item_required i) (section_items s6)) = []"
    by (elim exE conjE)
  from empty_Documentation obtain s7 where s7: "checkDocumentation empty_project = Inr s7"
    "section_score s7 = 67"
    "map item_id (filter (\<lambda>i. item_status i = Fail \<and> item_required i) (section_items s7)) = []"
    by (elim exE conjE)
  from empty_Legal obtain s8 where s8: "checkLegal empty_project = Inr s8"
    "section_score s8 = 75"
    "map item_id (filter (\<lambda>i. item_status i = Fail \<and> item_required i) (section_items s8)) = []"
    by (elim exE conjE)
  note s = s1(1) s2(1) s3(1) s4(1) s5(1) s6(1) s7(1) s8(1)
  note sc = s1(2) s2(2) s3(2) s4(2) s5(2) s6(2) s7(2) s8(2)
  note cr = s1(3) s2(3) s3(3) s4(3) s5(3) s6(3) s7(3) s8(3)
  have run: "runLaunchChecklist empty_project 0 =
      Inr (assembleChecklist [s1, s2, s3, s4, s5, s6, s7, s8] 0)"
    by (simp add: runLaunchChecklist_def s)
  then have eq: "empty_checklist = assembleChecklist [s1, s2, s3, s4, s5, s6, s7, s8] 0"
    by (simp add: empty_checklist_def)
  show "runLaunchChecklist empty_project 0 = Inr empty_checklist"
    by (simp add: run eq)
  show "lc_overallScore empty_checklist = Some 61"
    by (simp add: eq assemble_overallScore_div sc)
  show "map item_id (lc_criticalIssues empty_checklist) =
     [''favicon'', ''og-images'', ''sitemap'', ''robots'']"
    by (simp add: eq assemble_criticalIssues cr)
qed

lemma ready_run:
  "runLaunchChecklist ready_project 0 = Inr ready_checklist"
  "lc_overallScore ready_checklist = Some 72"
  "lc_criticalIssues ready_checklist = []"
  "lc_readyToLaunch ready_checklist"
proof -
  from ready_Assets obtain s1 where s1: "checkAssets ready_project = Inr s1"
    "section_score s1 = 70"
    "(filter (\<lambda>i. item_status i = Fail \<and> item_required i) (section_items s1)) = []"
    by (elim exE conjE)
  from ready_SEO obtain s2 where s2: "checkSEO ready_project = Inr s2"
    "section_score s2 = 80"
    "(filter (\<lambda>i. item_status i = Fail \<and> item_required i) (section_items s2)) = []"
    by (elim exE conjE)
  from ready_Performance obtain s3 where s3: "checkPerformance ready_project = Inr s3"
    "section_score s3 = 63"
    "(filter (\<lambda>i. item_status i = Fail \<and> item_required i) (section_items s3)) = []"
    by (elim exE conjE)
  from ready_Security obtain s4 where s4: "checkSecurity ready_project = Inr s4"
    "section_score s4 = 75"
    "(filter (\<lambda>i. item_status i = Fail \<and> item_required i) (section_items s4)) = []"
    by (elim exE conjE)
  from ready_Functionality obtain s5 where s5: "checkFunctionality ready_project = Inr s5"
    "section_score s5 = 70"
    "(filter (\<lambda>i. item_status i = Fail \<and> item_required i) (section_items s5)) = []"
    by (elim exE conjE)
  from ready_Analytics obtain s6 where s6: "checkAnalytics ready_project = Inr s6"
    "section_score s6 = 75"
    "(filter (\<lambda>i. item_status i = Fail \<and> item_required i) (section_items s6)) = []"
    by (elim exE conjE)
  from ready_Documentation obtain s7 where s7: "checkDocumentation ready_project = Inr s7"
    "section_score s7 = 67"
    "(filter (\<lambda>i. item_status i = Fail \<and> item_required i) (section_items s7)) = []"
    by (elim exE conjE)
  from ready_Legal obtain s8 where s8: "checkLegal ready_project = Inr s8"
    "section_score s8 = 75"
    "(filter (\<lambda>i. item_status i = Fail \<and> item_required i) (section_items s8)) = []"
    by (elim exE conjE)
  note s = s1(1) s2(1) s3(1) s4(1) s5(1) s6(1) s7(1) s8(1)
  note sc = s1(2) s2(2) s3(2) s4(2) s5(2) s6(2) s7(2) s8(2)
  note cr = s1(3) s2(3) s3(3) s4(3) s5(3) s6(3) s7(3) s8(3)
  have run: "runLaunchChecklist ready_project 0 =
      Inr (assembleChecklist [s1, s2, s3, s4, s5, s6, s7, s8] 0)"
    by (simp add: runLaunchChecklist_def s)
  then have eq: "ready_checklist = assembleChecklist [s1, s2, s3, s4, s5, s6, s7, s8] 0"
    by (simp add: ready_checklist_def)
  show "runLaunchChecklist ready_project 0 = Inr ready_checklist"
    by (simp add: run eq)
  show score: "lc_overallScore ready_checklist = Some 72"
    by (simp add: eq assemble_overallScore_div sc)
  show crit: "lc_criticalIssues ready_checklist = []"
    by (simp add: eq assemble_criticalIssues cr)
  show "lc_readyToLaunch ready_checklist"
    using score crit by (simp add: eq assemble_readyToLaunch js_ge_def)
qed

lemma unreadable_Assets: "\<exists>s. checkAssets unreadable_project = Inr s"
  by (simp add: checkAssets_def unreadable_sel ready_sel Let_def)

lemma unreadable_SEO: "\<exists>s. checkSEO unreadable_project = Inr s"
  by (simp add: checkSEO_def unreadable_sel ready_sel Let_def)

lemma unreadable_Performance: "\<exists>s. checkPerformance unreadable_project = Inr s"
  by (simp add: checkPerformance_def unreadable_sel ready_sel Let_def)

lemma unreadable_Security: "checkSecurity unreadable_project = Inl EISDIR"
  by (simp add: checkSecurity_def unreadable_sel ready_sel Let_def)

lemma unreadable_run: "runLaunchChecklist unreadable_project now = Inl EISDIR"
  using unreadable_Assets unreadable_SEO unreadable_Performance unreadable_Security
  by (auto simp: runLaunchChecklist_def)

section \<open>Overall score, critical issues, warnings and readiness\<close>

text \<open>
  Claim C3. For every LaunchChecklist returned by runLaunchChecklist, overallScore is the
  rounded mean of the section scores, each section counting once whatever the number of
  its items; criticalIssues is the list of the items that have status fail and are
  required, and warnings the list of the items that have status warning, both taken from
  the sections in section order and, within a section, in item order.
\<close>

theorem checklist_aggregates:
  assumes "runLaunchChecklist p now = Inr cl"
  shows "lc_overallScore cl =
           Some (Math_round (of_int (sum_list (map section_score (lc_sections cl)))
                             / of_int (int (length (lc_sections cl)))))
       \<and> lc_criticalIssues cl =
           filter (\<lambda>i. item_status i = Fail \<and> item_required i)
             (concat (map section_items (lc_sections cl)))
       \<and> lc_warnings cl =
           filter (\<lambda>i. item_status i = Warning) (concat (map section_items (lc_sections cl)))"
proof -
  from assms obtain sections where cl: "cl = assembleChecklist sections now"
    and ne: "sections \<noteq> []"
    by (auto elim!: runLaunchChecklist_Inr)
  show ?thesis
    using ne by (simp add: cl assemble_overallScore assemble_criticalIssues assemble_warnings)
qed

text \<open>
  The checklist of the empty project: the score is 61, and the critical issues are the
  favicon and the Open Graph images of the first section, then the sitemap and the
  robots.txt of the second.
\<close>

theorem checklist_aggregates_witness:
  "runLaunchChecklist empty_project 0 = Inr empty_checklist
   \<and> lc_overallScore empty_checklist = Some 61
   \<and> map item_id (filter (\<lambda>i. item_status i = Fail \<and> item_required i)
        (concat (map section_items (lc_sections empty_checklist)))) =
       [''favicon'', ''og-images'', ''sitemap'', ''robots'']
   \<and> lc_warnings empty_checklist =
       filter (\<lambda>i. item_status i = Warning)
         (concat (map section_items (lc_sections empty_checklist)))"
proof -
  note inst = checklist_aggregates [OF empty_run(1)]
  have crit: "filter (\<lambda>i. item_status i = Fail \<and> item_required i)
        (concat (map section_items (lc_sections empty_checklist))) =
      lc_criticalIssues empty_checklist"
    using inst by simp
  have warn: "lc_warnings empty_checklist =
       filter (\<lambda>i. item_status i = Warning)
         (concat (map section_items (lc_sections empty_checklist)))"
    using inst by simp
  show ?thesis
    using warn by (simp add: crit empty_run)
qed

text \<open>
  Claim C2. For every non-empty list of sections, the checklist assembled from it has a
  number as its overall score, and readyToLaunch is true if and only if criticalIssues is
  empty and that score is at least 70; a required item with status fail, or a score below
  70, each makes readyToLaunch false, the latter also when there is no critical issue.
  Every LaunchChecklist returned by runLaunchChecklist is assembled in this way from its
  own sections, which are not empty, and so has all these properties.
\<close>

theorem readyToLaunch_iff:
  "(sections \<noteq> [] \<longrightarrow>
      (\<exists>n. lc_overallScore (assembleChecklist sections t) = Some n
          \<and> lc_readyToLaunch (assembleChecklist sections t) =
              (lc_criticalIssues (assembleChecklist sections t) = [] \<and> 70 \<le> n)))
   \<and> ((\<exists>s \<in> set sections. \<exists>i \<in> set (section_items s).
          item_required i \<and> item_status i = Fail) \<longrightarrow>
        \<not> lc_readyToLaunch (assembleChecklist sections t))
   \<and> (\<forall>n. lc_overallScore (assembleChecklist sections t) = Some n \<and> n < 70 \<longrightarrow>
          \<not> lc_readyToLaunch (assembleChecklist sections t))
   \<and> (runLaunchChecklist p now = Inr cl \<longrightarrow>
        cl = assembleChecklist (lc_sections cl) now \<and> lc_sections cl \<noteq> []
        \<and> (\<exists>n. lc_overallScore cl = Some n
              \<and> lc_readyToLaunch cl = (lc_criticalIssues cl = [] \<and> 70 \<le> n))
        \<and> ((\<exists>s \<in> set (lc_sections cl). \<exists>i \<in> set (section_items s).
              item_required i \<and> item_status i = Fail) \<longrightarrow> \<not> lc_readyToLaunch cl)
        \<and> (\<forall>n. lc_overallScore cl = Some n \<and> n < 70 \<longrightarrow> \<not> lc_readyToLaunch cl))"
proof -
  have general: "\<exists>n. lc_overallScore (assembleChecklist ss u) = Some n
          \<and> lc_readyToLaunch (assembleChecklist ss u) =
              (lc_criticalIssues (assembleChecklist ss u) = [] \<and> 70 \<le> n)"
    if "ss \<noteq> []" for ss u
  proof -
    from that obtain n where n: "lc_overallScore (assembleChecklist ss u) = Some n"
      by (simp add: assemble_overallScore)
    then show ?thesis
      by (simp add: assemble_readyToLaunch js_ge_def)
  qed
  have crit: "\<not> lc_readyToLaunch (assembleChecklist ss u)"
    if "\<exists>s \<in> set ss. \<exists>i \<in> set (section_items s). item_required i \<and> item_status i = Fail"
    for ss u
  proof -
    from that have "lc_criticalIssues (assembleChecklist ss u) \<noteq> []"
      by (auto simp: assemble_criticalIssues filter_empty_conv)
    then show ?thesis by (simp add: assemble_readyToLaunch)
  qed
  have low: "\<not> lc_readyToLaunch (assembleChecklist ss u)"
    if "lc_overallScore (assembleChecklist ss u) = Some n \<and> n < 70" for ss u n
    using that by (simp add: assemble_readyToLaunch js_ge_def)
  have returned: "cl = assembleChecklist (lc_sections cl) now \<and> lc_sections cl \<noteq> []"
    if "runLaunchChecklist p now = Inr cl"
    using that by (auto elim!: runLaunchChecklist_Inr)
  show ?thesis
  proof (intro conjI impI allI)
    assume "sections \<noteq> []"
    then show "\<exists>n. lc_overallScore (assembleChecklist sections t) = Some n
          \<and> lc_readyToLaunch (assembleChecklist sections t) =
              (lc_criticalIssues (assembleChecklist sections t) = [] \<and> 70 \<le> n)"
      by (rule general)
  next
    assume "\<exists>s \<in> set sections. \<exists>i \<in> set (section_items s).
          item_required i \<and> item_status i = Fail"
    then show "\<not> lc_readyToLaunch (assembleChecklist sections t)"
      by (rule crit)
  next
    fix n
    assume "lc_overallScore (assembleChecklist sections t) = Some n \<and> n < 70"
    then show "\<not> lc_readyToLaunch (assembleChecklist sections t)"
      by (rule low)
  next
    assume run: "runLaunchChecklist p now = Inr cl"
    show "cl = assembleChecklist (lc_sections cl) now"
      using returned [OF run] by simp
    show "lc_sections cl \<noteq> []"
      using returned [OF run] by simp
    show "\<exists>n. lc_overallScore cl = Some n
              \<and> lc_readyToLaunch cl = (lc_criticalIssues cl = [] \<and> 70 \<le> n)"
      using returned [OF run] general [of "lc_sections cl" now] by simp
  next
    assume run: "runLaunchChecklist p now = Inr cl"
      and "\<exists>s \<in> set (lc_sections cl). \<exists>i \<in> set (section_items s).
              item_required i \<and> item_status i = Fail"
    then show "\<not> lc_readyToLaunch cl"
      using returned [OF run] crit [of "lc_sections cl" now] by simp
  next
    fix n
    assume run: "runLaunchChecklist p now = Inr cl"
      and "lc_overallScore cl = Some n \<and> n < 70"
    then show "\<not> lc_readyToLaunch cl"
      using returned [OF run] low [of "lc_sections cl" now n] by simp
  qed
qed

lemma section_of_fields:
  "section_score (section_of sts) = score_of_statuses sts"
  "section_items (section_of sts) = map optional_item sts"
  "item_status (optional_item st) = st" "item_required (optional_item st) = False"
  by (simp_all add: section_of_def optional_item_def calculateSectionScore_statuses comp_def)

text \<open>
  One section of two warnings has the score 50 and no critical issue, and is not ready. A
  section of score 70 alone is ready; together with a section of score 67 the score is 69
  (68.5 rounded) and the checklist is not ready, without any critical issue. Of the two
  projects, the empty one has critical issues and the score 61 and is not ready, and the
  static site has no critical issue and the score 72 and is ready.
\<close>

theorem readyToLaunch_iff_witness:
  "lc_overallScore (assembleChecklist [section_of [Warning, Warning]] 0) = Some 50
   \<and> lc_criticalIssues (assembleChecklist [section_of [Warning, Warning]] 0) = []
   \<and> \<not> lc_readyToLaunch (assembleChecklist [section_of [Warning, Warning]] 0)
   \<and> lc_overallScore
        (assembleChecklist [section_of [Pass, Pass, Warning, Warning, Warning]] 0) = Some 70
   \<and> lc_readyToLaunch
        (assembleChecklist [section_of [Pass, Pass, Warning, Warning, Warning]] 0)
   \<and> lc_overallScore
        (assembleChecklist [section_of [Pass, Pass, Warning, Warning, Warning],
                            section_of [Warning, Skip, Skip]] 0) = Some 69
   \<and> lc_criticalIssues
        (assembleChecklist [section_of [Pass, Pass, Warning, Warning, Warning],
                            section_of [Warning, Skip, Skip]] 0) = []
   \<and> \<not> lc_readyToLaunch
        (assembleChecklist [section_of [Pass, Pass, Warning, Warning, Warning],
                            section_of [Warning, Skip, Skip]] 0)
   \<and> runLaunchChecklist empty_project 0 = Inr empty_checklist
   \<and> lc_overallScore empty_checklist = Some 61
   \<and> lc_criticalIssues empty_checklist \<noteq> []
   \<and> \<not> lc_readyToLaunch empty_checklist
   \<and> runLaunchChecklist ready_project 0 = Inr ready_checklist
   \<and> lc_overallScore ready_checklist = Some 72
   \<and> lc_criticalIssues ready_checklist = []
   \<and> lc_readyToLaunch ready_checklist"
proof -
  have scores:
    "lc_overallScore (assembleChecklist [section_of [Warning, Warning]] 0) = Some 50"
    "lc_overallScore
        (assembleChecklist [section_of [Pass, Pass, Warning, Warning, Warning]] 0) = Some 70"
    "lc_overallScore
        (assembleChecklist [section_of [Pass, Pass, Warning, Warning, Warning],
                            section_of [Warning, Skip, Skip]] 0) = Some 69"
    by (simp_all add: assemble_overallScore_div section_of_fields score_of_statuses_def)
  have crits:
    "lc_criticalIssues (assembleChecklist [section_of [Warning, Warning]] 0) = []"
    "lc_criticalIssues
        (assembleChecklist [section_of [Pass, Pass, Warning, Warning, Warning]] 0) = []"
    "lc_criticalIssues
        (assembleChecklist [section_of [Pass, Pass, Warning, Warning, Warning],
                            section_of [Warning, Skip, Skip]] 0) = []"
    by (simp_all add: assemble_criticalIssues section_of_fields)
  have "lc_criticalIssues empty_checklist \<noteq> []"
    using empty_run(3) by auto
  then show ?thesis
    using readyToLaunch_iff [of "[section_of [Warning, Warning]]" 0 empty_project 0
        empty_checklist]
      readyToLaunch_iff [of "[section_of [Pass, Pass, Warning, Warning, Warning]]" 0
        ready_project 0 ready_checklist]
      readyToLaunch_iff [of "[section_of [Pass, Pass, Warning, Warning, Warning],
                            section_of [Warning, Skip, Skip]]" 0 ready_project 0
        ready_checklist]
    by (simp add: scores crits empty_run ready_run)
qed

section \<open>The eight sections\<close>

lemma returned_section_names:
  assumes "runLaunchChecklist p now = Inr cl"
  shows "map section_name (lc_sections cl) =
        [''Assets & Branding'', ''SEO Optimization'', ''Performance'', ''Security'',
         ''Functionality'', ''Analytics & Monitoring'', ''Documentation'',
         ''Legal & Compliance'']"
proof -
  from assms obtain s1 s2 s3 s4 s5 s6 s7 s8 where
    s: "checkAssets p = Inr s1" "checkSEO p = Inr s2" "checkPerformance p = Inr s3"
      "checkSecurity p = Inr s4" "checkFunctionality p = Inr s5" "checkAnalytics p = Inr s6"
      "checkDocumentation p = Inr s7" "checkLegal p = Inr s8"
    and cl: "cl = assembleChecklist [s1, s2, s3, s4, s5, s6, s7, s8] now"
    by (rule runLaunchChecklist_Inr)
  show ?thesis
    using checkAssets_Inr [OF s(1)] checkSEO_Inr [OF s(2)] checkPerformance_Inr [OF s(3)]
      checkSecurity_Inr [OF s(4)] checkFunctionality_Inr [OF s(5)] checkAnalytics_Inr [OF s(6)]
      checkDocumentation_Inr [OF s(7)] checkLegal_Inr [OF s(8)]
    by (simp add: cl)
qed

text \<open>
  Claim C10, as the code has it. Whenever runLaunchChecklist returns, the checklist has
  exactly eight sections, named in this order Assets & Branding, SEO Optimization,
  Performance, Security, Functionality, Analytics & Monitoring, Documentation, Legal &
  Compliance; so the list of sections of a returned checklist is not empty and the
  divisor of its overall score is 8, never 0. runLaunchChecklist returns exactly when none
  of the eight check functions throws, which is the case on every project on which no
  glob and no file read throws; when one throws, runLaunchChecklist throws before the
  division is reached, and returns no checklist.
\<close>

theorem runLaunchChecklist_eight_sections:
  "(runLaunchChecklist p now = Inr cl \<longrightarrow>
      map section_name (lc_sections cl) =
        [''Assets & Branding'', ''SEO Optimization'', ''Performance'', ''Security'',
         ''Functionality'', ''Analytics & Monitoring'', ''Documentation'',
         ''Legal & Compliance'']
      \<and> length (lc_sections cl) = 8
      \<and> lc_sections cl \<noteq> []
      \<and> lc_overallScore cl =
          Some (Math_round (of_int (sum_list (map section_score (lc_sections cl))) / 8)))
   \<and> ((\<forall>pat. \<not> isl (glob p pat)) \<and> (\<forall>f. \<not> isl (readFile p f)) \<longrightarrow>
        \<not> isl (runLaunchChecklist p now))
   \<and> (\<not> isl (runLaunchChecklist p now)) = (first_thrown (providers p) = None)
   \<and> (first_thrown (providers p) = Some e \<longrightarrow> runLaunchChecklist p now = Inl e)"
proof (intro conjI impI)
  assume run: "runLaunchChecklist p now = Inr cl"
  then obtain s1 s2 s3 s4 s5 s6 s7 s8 where
    cl: "cl = assembleChecklist [s1, s2, s3, s4, s5, s6, s7, s8] now"
    by (rule runLaunchChecklist_Inr)
  have sections: "lc_sections cl = [s1, s2, s3, s4, s5, s6, s7, s8]"
    by (simp add: cl)
  show "map section_name (lc_sections cl) =
        [''Assets & Branding'', ''SEO Optimization'', ''Performance'', ''Security'',
         ''Functionality'', ''Analytics & Monitoring'', ''Documentation'',
         ''Legal & Compliance'']"
    using run by (rule returned_section_names)
  show "length (lc_sections cl) = 8" by (simp add: sections)
  show "lc_sections cl \<noteq> []" by (simp add: sections)
  have "lc_overallScore cl =
      Some (Math_round (of_int (sum_list (map section_score (lc_sections cl)))
                        / of_int (int (length (lc_sections cl)))))"
    unfolding sections unfolding cl by (rule assemble_overallScore) simp
  then show "lc_overallScore cl =
      Some (Math_round (of_int (sum_list (map section_score (lc_sections cl))) / 8))"
    by (simp add: sections)
next
  assume "(\<forall>pat. \<not> isl (glob p pat)) \<and> (\<forall>f. \<not> isl (readFile p f))"
  then have "first_thrown (providers p) = None"
    by (intro providers_total) auto
  then show "\<not> isl (runLaunchChecklist p now)"
    by (simp add: runLaunchChecklist_returns_iff)
next
  show "(\<not> isl (runLaunchChecklist p now)) = (first_thrown (providers p) = None)"
    by (rule runLaunchChecklist_returns_iff)
next
  assume "first_thrown (providers p) = Some e"
  then show "runLaunchChecklist p now = Inl e"
    by (simp add: runLaunchChecklist_first_thrown)
qed

text \<open>
  The checklist of the empty project, on which no glob and no read throws, and the
  project with the unreadable \<open>.gitignore\<close>, on which the security check throws.
\<close>

theorem runLaunchChecklist_eight_sections_witness:
  "(\<forall>pat. \<not> isl (glob empty_project pat)) \<and> (\<forall>f. \<not> isl (readFile empty_project f))
   \<and> runLaunchChecklist empty_project 0 = Inr empty_checklist
   \<and> map section_name (lc_sections empty_checklist) =
        [''Assets & Branding'', ''SEO Optimization'', ''Performance'', ''Security'',
         ''Functionality'', ''Analytics & Monitoring'', ''Documentation'',
         ''Legal & Compliance'']
   \<and> length (lc_sections empty_checklist) = 8
   \<and> lc_overallScore empty_checklist = Some 61
   \<and> first_thrown (providers unreadable_project) = Some EISDIR
   \<and> runLaunchChecklist unreadable_project 0 = Inl EISDIR"
proof -
  have thrown: "first_thrown (providers unreadable_project) = Some EISDIR"
    using unreadable_run [of 0] by (simp add: runLaunchChecklist_first_thrown)
  show ?thesis
    using runLaunchChecklist_eight_sections [of empty_project 0 empty_checklist EISDIR]
      runLaunchChecklist_eight_sections [of unreadable_project 0 empty_checklist EISDIR]
    by (simp add: empty_run empty_sel thrown)
qed

text \<open>
  Claim C10 as stated fails. For the project whose \<open>.gitignore\<close> cannot be read,
  runLaunchChecklist returns no checklist; and in the checklist it returns for the
  readable project, the second section is named SEO Optimization and none is named SEO.
\<close>

theorem no_checklist_for_unreadable_project:
  "isl (runLaunchChecklist unreadable_project 0)
   \<and> runLaunchChecklist ready_project 0 = Inr ready_checklist
   \<and> map section_name (lc_sections ready_checklist) =
        [''Assets & Branding'', ''SEO Optimization'', ''Performance'', ''Security'',
         ''Functionality'', ''Analytics & Monitoring'', ''Documentation'',
         ''Legal & Compliance'']
   \<and> ''SEO'' \<notin> set (map section_name (lc_sections ready_checklist))"
proof -
  have names: "map section_name (lc_sections ready_checklist) =
        [''Assets & Branding'', ''SEO Optimization'', ''Performance'', ''Security'',
         ''Functionality'', ''Analytics & Monitoring'', ''Documentation'',
         ''Legal & Compliance'']"
    using ready_run(1) by (rule returned_section_names)
  show ?thesis
    by (simp add: unreadable_run ready_run names)
qed

section \<open>A check function that throws\<close>

lemma step_fields [simp]:
  "step_status (finish_step s t) = step_status s"
  "step_error (finish_step s t) = step_error s"
  "step_result (finish_step s t) = step_result s"
  "step_id (finish_step s t) = step_id s"
  by (simp_all add: finish_step_def)

lemma try_catch_Inl [simp]:
  "try_catch s (Inl e) = s\<lparr>step_status := Failed, step_error := Some (String_of_error e)\<rparr>"
  by (simp add: try_catch_def)

lemma try_catch_Inr [simp]: "try_catch s (Inr s') = s'"
  by (simp add: try_catch_def)

lemma new_step_fields [simp]:
  "step_id (new_step i n d t) = i" "step_status (new_step i n d t) = Running"
  "step_error (new_step i n d t) = None" "step_result (new_step i n d t) = None"
  by (simp_all add: new_step_def)

lemma checklist_step_Inl:
  "runLaunchChecklist (launch_project env) (checklist_now env) = Inl e \<Longrightarrow>
     step_status (runLaunchChecklistValidation env) = Failed
     \<and> step_error (runLaunchChecklistValidation env) = Some (String_of_error e)
     \<and> step_result (runLaunchChecklistValidation env) = None"
  by (simp add: runLaunchChecklistValidation_def Let_def)

lemma checklist_step_Inr:
  "runLaunchChecklist (launch_project env) (checklist_now env) = Inr cl \<Longrightarrow>
     step_status (runLaunchChecklistValidation env) = Completed
     \<and> step_error (runLaunchChecklistValidation env) = None
     \<and> step_result (runLaunchChecklistValidation env) = Some (ChecklistResult cl)"
  by (simp add: runLaunchChecklistValidation_def Let_def)

lemma demo_sel:
  "analyzeImages demo_env = Inr 0" "optimizeImages_perf demo_env = Inr []"
  "launch_project demo_env = ready_project" "checklist_now demo_env = 0"
  by (simp_all add: demo_env_def)

lemma throwing_sel:
  "analyzeImages throwing_env = Inr 0" "optimizeImages_perf throwing_env = Inr []"
  "launch_project throwing_env = unreadable_project" "checklist_now throwing_env = 0"
  by (simp_all add: throwing_env_def demo_env_def)

lemma perf_failing_sel:
  "analyzeImages perf_failing_env = Inr 0" "optimizeImages_perf perf_failing_env = Inl EISDIR"
  "launch_project perf_failing_env = ready_project" "checklist_now perf_failing_env = 0"
  by (simp_all add: perf_failing_env_def demo_env_def)

lemma assets_failing_sel:
  "analyzeImages assets_failing_env = Inl EISDIR"
  by (simp add: assets_failing_env_def demo_env_def)

text \<open>
  Claim C4, as the code has it. runLaunchChecklist has no handler: it throws the value of
  the first check function that throws, in the order in which it awaits them, and returns
  a LaunchChecklist exactly when none throws. No fail item is made of the exception. The
  caller in the workflow, runLaunchChecklistValidation, catches the exception and records
  its own step as failed, with the text of the exception as the step's error and without
  a result.
\<close>

theorem runLaunchChecklist_propagates:
  "(runLaunchChecklist p now = Inl e \<longleftrightarrow> first_thrown (providers p) = Some e)
   \<and> (\<not> isl (runLaunchChecklist p now) \<longleftrightarrow> first_thrown (providers p) = None)
   \<and> (runLaunchChecklist (launch_project env) (checklist_now env) = Inl e \<longrightarrow>
        step_status (runLaunchChecklistValidation env) = Failed
        \<and> step_error (runLaunchChecklistValidation env) = Some (String_of_error e)
        \<and> step_result (runLaunchChecklistValidation env) = None)"
  using runLaunchChecklist_first_thrown [of p now e] runLaunchChecklist_returns_iff [of p now]
    checklist_step_Inl [of env e]
  by blast

text \<open>
  On the project with the unreadable \<open>.gitignore\<close> the security check is the first
  to throw; the step of the workflow on that project is failed with the text of the
  error. On the readable project nothing throws.
\<close>

theorem runLaunchChecklist_propagates_witness:
  "first_thrown (providers unreadable_project) = Some EISDIR
   \<and> runLaunchChecklist unreadable_project 0 = Inl EISDIR
   \<and> launch_project throwing_env = unreadable_project
   \<and> step_status (runLaunchChecklistValidation throwing_env) = Failed
   \<and> step_error (runLaunchChecklistValidation throwing_env) =
       Some ''Error: EISDIR: illegal operation on a directory, read''
   \<and> first_thrown (providers ready_project) = None
   \<and> \<not> isl (runLaunchChecklist ready_project 0)"
proof -
  have run: "runLaunchChecklist unreadable_project 0 = Inl EISDIR"
    by (rule unreadable_run)
  have str: "String_of_error EISDIR = ''Error: EISDIR: illegal operation on a directory, read''"
    by (simp add: String_of_error_def EISDIR_def)
  show ?thesis
    using runLaunchChecklist_propagates [of unreadable_project 0 EISDIR throwing_env]
      runLaunchChecklist_propagates [of ready_project 0 EISDIR throwing_env]
    by (simp add: run str throwing_sel ready_run)
qed

text \<open>
  Claim C4 as stated fails: \<open>.gitignore\<close> exists and reading it throws, the security
  check throws the same error, and runLaunchChecklist throws it in turn instead of
  returning a LaunchChecklist.
\<close>

theorem provider_exception_leaves_runLaunchChecklist:
  "existsSync unreadable_project ''.gitignore''
   \<and> readFile unreadable_project ''.gitignore'' = Inl EISDIR
   \<and> checkSecurity unreadable_project = Inl EISDIR
   \<and> runLaunchChecklist unreadable_project 0 = Inl EISDIR"
  by (simp add: unreadable_run unreadable_Security unreadable_sel ready_sel)

section \<open>The workflow step runner\<close>

lemma step_ids:
  "step_id (runAssetGeneration env) = ''assets''"
  "step_id (runSEOOptimization env) = ''seo''"
  "step_id (runPerformanceOptimization env fc) = ''performance''"
  "step_id (runLaunchChecklistValidation env) = ''launch-checklist''"
  "step_id (runDeployment env b) = ''deployment''"
proof -
  show "step_id (runAssetGeneration env) = ''assets''"
    by (cases "analyzeImages env"; cases "optimizeImages_assets env")
       (simp_all add: runAssetGeneration_def Let_def)
  show "step_id (runSEOOptimization env) = ''seo''"
    by (simp add: runSEOOptimization_def Let_def split: prod.splits)
  show "step_id (runPerformanceOptimization env fc) = ''performance''"
    by (cases "optimizeImages_perf env") (simp_all add: runPerformanceOptimization_def Let_def)
  show "step_id (runLaunchChecklistValidation env) = ''launch-checklist''"
    by (cases "runLaunchChecklist (launch_project env) (checklist_now env)")
       (simp_all add: runLaunchChecklistValidation_def Let_def)
  show "step_id (runDeployment env b) = ''deployment''"
    by (simp add: runDeployment_def Let_def)
qed

lemma assets_failed:
  "analyzeImages env = Inl e \<Longrightarrow>
     step_status (runAssetGeneration env) = Failed
     \<and> step_error (runAssetGeneration env) = Some (String_of_error e)"
  "analyzeImages env = Inr n \<Longrightarrow> 0 < n \<Longrightarrow> optimizeImages_assets env = Inl e \<Longrightarrow>
     step_status (runAssetGeneration env) = Failed
     \<and> step_error (runAssetGeneration env) = Some (String_of_error e)"
  by (simp_all add: runAssetGeneration_def Let_def)

lemma perf_failed:
  "optimizeImages_perf env = Inl e \<Longrightarrow>
     step_status (runPerformanceOptimization env fc) = Failed
     \<and> step_error (runPerformanceOptimization env fc) = Some (String_of_error e)"
  by (simp add: runPerformanceOptimization_def Let_def)

lemma deployment_step: "step_status (runDeployment env b) = Skipped"
  by (simp add: runDeployment_def Let_def)

lemma step_statuses:
  "analyzeImages env = Inr 0 \<Longrightarrow> step_status (runAssetGeneration env) = Skipped"
  "step_status (runSEOOptimization env) = Completed"
  "optimizeImages_perf env = Inr rs \<Longrightarrow>
     step_status (runPerformanceOptimization env fc) = Completed"
  by (simp_all add: runAssetGeneration_def runSEOOptimization_def
      runPerformanceOptimization_def Let_def split: prod.splits)

lemma runCompleteWorkflow_steps:
  "wr_steps (runCompleteWorkflow env config) =
     (let fc = spread DEFAULT_CONFIG config in
      (if truthy (skipAssets fc) then [] else [runAssetGeneration env])
      @ (if truthy (skipSEO fc) then [] else [runSEOOptimization env])
      @ (if truthy (skipPerf fc) then [] else [runPerformanceOptimization env fc])
      @ [runLaunchChecklistValidation env]
      @ (if deploy_gate env fc then [runDeployment env (truthy (production fc))] else []))"
  by (cases "runLaunchChecklist (launch_project env) (checklist_now env)")
     (simp_all add: runCompleteWorkflow_def Let_def deploy_gate_def
        checklist_step_Inl checklist_step_Inr)

lemma runCompleteWorkflow_success:
  "wr_overallSuccess (runCompleteWorkflow env config) =
     list_all (\<lambda>s. step_status s = Completed \<or> step_status s = Skipped)
       (wr_steps (runCompleteWorkflow env config))"
  by (simp add: runCompleteWorkflow_def Let_def split: prod.splits)

lemma deploy_gate_Inr:
  "deploy_gate env fc \<Longrightarrow>
     \<exists>cl. runLaunchChecklist (launch_project env) (checklist_now env) = Inr cl"
  by (cases "runLaunchChecklist (launch_project env) (checklist_now env)")
     (simp_all add: deploy_gate_def)

lemma deploy_config_flags:
  "truthy (skipAssets (spread DEFAULT_CONFIG deploy_config)) = False"
  "truthy (skipSEO (spread DEFAULT_CONFIG deploy_config)) = False"
  "truthy (skipPerf (spread DEFAULT_CONFIG deploy_config)) = False"
  "truthy (skipDeploy (spread DEFAULT_CONFIG deploy_config)) = False"
  "truthy (production (spread DEFAULT_CONFIG deploy_config)) = False"
  by (simp_all add: spread_def spread_field_def DEFAULT_CONFIG_def deploy_config_def
      truthy_def)

lemma gates:
  "deploy_gate demo_env (spread DEFAULT_CONFIG deploy_config)"
  "deploy_gate perf_failing_env (spread DEFAULT_CONFIG deploy_config)"
  "\<not> deploy_gate throwing_env (spread DEFAULT_CONFIG deploy_config)"
  by (simp_all add: deploy_gate_def deploy_config_flags demo_sel perf_failing_sel throwing_sel
      ready_run unreadable_run)

lemma final_flags:
  "truthy (skipAssets (spread DEFAULT_CONFIG config)) = (skipAssets config = Defined True)"
  "truthy (skipSEO (spread DEFAULT_CONFIG config)) = (skipSEO config = Defined True)"
  "truthy (skipPerf (spread DEFAULT_CONFIG config)) = (skipPerf config = Defined True)"
  "truthy (skipDeploy (spread DEFAULT_CONFIG config)) =
     (skipDeploy config = Absent \<or> skipDeploy config = Defined True)"
  "truthy (production (spread DEFAULT_CONFIG config)) = (production config = Defined True)"
proof -
  show "truthy (skipAssets (spread DEFAULT_CONFIG config)) = (skipAssets config = Defined True)"
    by (cases "skipAssets config")
       (simp_all add: spread_def spread_field_def DEFAULT_CONFIG_def truthy_def)
  show "truthy (skipSEO (spread DEFAULT_CONFIG config)) = (skipSEO config = Defined True)"
    by (cases "skipSEO config")
       (simp_all add: spread_def spread_field_def DEFAULT_CONFIG_def truthy_def)
  show "truthy (skipPerf (spread DEFAULT_CONFIG config)) = (skipPerf config = Defined True)"
    by (cases "skipPerf config")
       (simp_all add: spread_def spread_field_def DEFAULT_CONFIG_def truthy_def)
  show "truthy (skipDeploy (spread DEFAULT_CONFIG config)) =
     (skipDeploy config = Absent \<or> skipDeploy config = Defined True)"
    by (cases "skipDeploy config")
       (simp_all add: spread_def spread_field_def DEFAULT_CONFIG_def truthy_def)
  show "truthy (production (spread DEFAULT_CONFIG config)) = (production config = Defined True)"
    by (cases "production config")
       (simp_all add: spread_def spread_field_def DEFAULT_CONFIG_def truthy_def)
qed

text \<open>
  Claim C5, as the code has it. The steps recorded by a run are, in this order: the asset,
  SEO and performance steps unless their skip flag is true in the merged configuration,
  the launch-checklist step always, and the deployment step exactly when skipDeploy is
  falsy in the merged configuration and runLaunchChecklist returned a checklist that is
  ready to launch. skipDeploy is falsy there when the caller's object has it as false or
  as undefined; when the object lacks it, the default true applies. A step whose body
  throws (the image analysis or the image optimizer of the asset step, the image optimizer
  of the performance step, runLaunchChecklist in the launch-checklist step) is recorded as
  failed with the text of the thrown value, and none of the first four steps depends on
  what failed before it; only the deployment step is left out after a failure, that of
  the launch-checklist step. overallSuccess is true if and only if every recorded step is
  completed or skipped. In a run of all five steps whose performance step throws, the
  last three steps are failed, completed and skipped and overallSuccess is false.
\<close>

theorem runCompleteWorkflow_partial_failure:
  "wr_steps (runCompleteWorkflow env config) =
     (if truthy (skipAssets (spread DEFAULT_CONFIG config)) then []
      else [runAssetGeneration env])
     @ (if truthy (skipSEO (spread DEFAULT_CONFIG config)) then []
        else [runSEOOptimization env])
     @ (if truthy (skipPerf (spread DEFAULT_CONFIG config)) then []
        else [runPerformanceOptimization env (spread DEFAULT_CONFIG config)])
     @ [runLaunchChecklistValidation env]
     @ (if deploy_gate env (spread DEFAULT_CONFIG config)
        then [runDeployment env (truthy (production (spread DEFAULT_CONFIG config)))]
        else [])
   \<and> (\<forall>e. analyzeImages env = Inl e \<longrightarrow> failed_with (runAssetGeneration env) e)
   \<and> (\<forall>n e. analyzeImages env = Inr n \<and> 0 < n \<and> optimizeImages_assets env = Inl e
          \<longrightarrow> failed_with (runAssetGeneration env) e)
   \<and> (\<forall>e fc. optimizeImages_perf env = Inl e
          \<longrightarrow> failed_with (runPerformanceOptimization env fc) e)
   \<and> (\<forall>e. runLaunchChecklist (launch_project env) (checklist_now env) = Inl e
          \<longrightarrow> failed_with (runLaunchChecklistValidation env) e)
   \<and> wr_overallSuccess (runCompleteWorkflow env config) =
       (\<forall>s \<in> set (wr_steps (runCompleteWorkflow env config)).
          step_status s = Completed \<or> step_status s = Skipped)
   \<and> (\<not> truthy (skipAssets (spread DEFAULT_CONFIG config))
        \<and> \<not> truthy (skipSEO (spread DEFAULT_CONFIG config))
        \<and> \<not> truthy (skipPerf (spread DEFAULT_CONFIG config))
        \<and> deploy_gate env (spread DEFAULT_CONFIG config)
        \<and> isl (optimizeImages_perf env) \<longrightarrow>
        length (wr_steps (runCompleteWorkflow env config)) = 5
        \<and> map step_status (drop 2 (wr_steps (runCompleteWorkflow env config))) =
            [Failed, Completed, Skipped]
        \<and> \<not> wr_overallSuccess (runCompleteWorkflow env config))
   \<and> truthy (skipAssets (spread DEFAULT_CONFIG config)) = (skipAssets config = Defined True)
   \<and> truthy (skipSEO (spread DEFAULT_CONFIG config)) = (skipSEO config = Defined True)
   \<and> truthy (skipPerf (spread DEFAULT_CONFIG config)) = (skipPerf config = Defined True)
   \<and> deploy_gate env (spread DEFAULT_CONFIG config) =
       ((skipDeploy config = Defined False \<or> skipDeploy config = Undefined)
        \<and> (\<exists>cl. runLaunchChecklist (launch_project env) (checklist_now env) = Inr cl
               \<and> lc_readyToLaunch cl))"
proof (intro conjI allI impI)
  show "wr_steps (runCompleteWorkflow env config) =
     (if truthy (skipAssets (spread DEFAULT_CONFIG config)) then []
      else [runAssetGeneration env])
     @ (if truthy (skipSEO (spread DEFAULT_CONFIG config)) then []
        else [runSEOOptimization env])
     @ (if truthy (skipPerf (spread DEFAULT_CONFIG config)) then []
        else [runPerformanceOptimization env (spread DEFAULT_CONFIG config)])
     @ [runLaunchChecklistValidation env]
     @ (if deploy_gate env (spread DEFAULT_CONFIG config)
        then [runDeployment env (truthy (production (spread DEFAULT_CONFIG config)))]
        else [])"
    by (simp only: runCompleteWorkflow_steps Let_def)
  show "failed_with (runAssetGeneration env) e" if "analyzeImages env = Inl e" for e
    using assets_failed(1) [OF that] by (simp add: failed_with_def)
  show "failed_with (runAssetGeneration env) e"
    if "analyzeImages env = Inr n \<and> 0 < n \<and> optimizeImages_assets env = Inl e" for n e
    using assets_failed(2) [of env n e] that by (simp add: failed_with_def)
  show "failed_with (runPerformanceOptimization env fc) e"
    if "optimizeImages_perf env = Inl e" for e fc
    using perf_failed [OF that] by (simp add: failed_with_def)
  show "failed_with (runLaunchChecklistValidation env) e"
    if "runLaunchChecklist (launch_project env) (checklist_now env) = Inl e" for e
    using checklist_step_Inl [OF that] by (simp add: failed_with_def)
  show "wr_overallSuccess (runCompleteWorkflow env config) =
       (\<forall>s \<in> set (wr_steps (runCompleteWorkflow env config)).
          step_status s = Completed \<or> step_status s = Skipped)"
    by (simp only: runCompleteWorkflow_success list_all_iff)
next
  assume five: "\<not> truthy (skipAssets (spread DEFAULT_CONFIG config))
        \<and> \<not> truthy (skipSEO (spread DEFAULT_CONFIG config))
        \<and> \<not> truthy (skipPerf (spread DEFAULT_CONFIG config))
        \<and> deploy_gate env (spread DEFAULT_CONFIG config)
        \<and> isl (optimizeImages_perf env)"
  then obtain e where e: "optimizeImages_perf env = Inl e"
    by (cases "optimizeImages_perf env") auto
  from five obtain cl where
    cl: "runLaunchChecklist (launch_project env) (checklist_now env) = Inr cl"
    using deploy_gate_Inr by blast
  have steps: "wr_steps (runCompleteWorkflow env config) =
      [runAssetGeneration env, runSEOOptimization env,
       runPerformanceOptimization env (spread DEFAULT_CONFIG config),
       runLaunchChecklistValidation env,
       runDeployment env (truthy (production (spread DEFAULT_CONFIG config)))]"
    using five by (simp add: runCompleteWorkflow_steps Let_def)
  show "length (wr_steps (runCompleteWorkflow env config)) = 5"
    by (simp add: steps)
  show "map step_status (drop 2 (wr_steps (runCompleteWorkflow env config))) =
            [Failed, Completed, Skipped]"
    using perf_failed [OF e] checklist_step_Inr [OF cl]
    by (simp add: steps deployment_step)
  show "\<not> wr_overallSuccess (runCompleteWorkflow env config)"
    using perf_failed [OF e, of "spread DEFAULT_CONFIG config"]
    by (simp add: runCompleteWorkflow_success steps)
next
  show "truthy (skipAssets (spread DEFAULT_CONFIG config)) = (skipAssets config = Defined True)"
    by (rule final_flags)
  show "truthy (skipSEO (spread DEFAULT_CONFIG config)) = (skipSEO config = Defined True)"
    by (rule final_flags)
  show "truthy (skipPerf (spread DEFAULT_CONFIG config)) = (skipPerf config = Defined True)"
    by (rule final_flags)
  have "(\<not> (skipDeploy config = Absent \<or> skipDeploy config = Defined True)) =
      (skipDeploy config = Defined False \<or> skipDeploy config = Undefined)"
    by (cases "skipDeploy config") auto
  then show "deploy_gate env (spread DEFAULT_CONFIG config) =
       ((skipDeploy config = Defined False \<or> skipDeploy config = Undefined)
        \<and> (\<exists>cl. runLaunchChecklist (launch_project env) (checklist_now env) = Inr cl
               \<and> lc_readyToLaunch cl))"
    by (cases "runLaunchChecklist (launch_project env) (checklist_now env)")
       (simp_all add: deploy_gate_def final_flags)
qed

text \<open>
  Three runs that ask for the deployment step. When the optimizer of the performance step
  throws, five steps are recorded, the third as failed. When the image analysis throws,
  the asset step is failed. When runLaunchChecklist throws, its step is failed. On the
  ready project, the configuration \<open>{ skipDeploy: undefined }\<close> runs the deployment step
  and the configuration \<open>{}\<close> does not.
\<close>

theorem runCompleteWorkflow_partial_failure_witness:
  "map step_id (wr_steps (runCompleteWorkflow perf_failing_env deploy_config)) =
     [''assets'', ''seo'', ''performance'', ''launch-checklist'', ''deployment'']
   \<and> isl (optimizeImages_perf perf_failing_env)
   \<and> map step_status (wr_steps (runCompleteWorkflow perf_failing_env deploy_config)) =
     [Skipped, Completed, Failed, Completed, Skipped]
   \<and> failed_with (runPerformanceOptimization perf_failing_env
        (spread DEFAULT_CONFIG deploy_config)) EISDIR
   \<and> \<not> wr_overallSuccess (runCompleteWorkflow perf_failing_env deploy_config)
   \<and> failed_with (runAssetGeneration assets_failing_env) EISDIR
   \<and> failed_with (runLaunchChecklistValidation throwing_env) EISDIR
   \<and> map step_id (wr_steps (runCompleteWorkflow demo_env undefined_deploy_config)) =
     [''assets'', ''seo'', ''performance'', ''launch-checklist'', ''deployment'']
   \<and> map step_id (wr_steps (runCompleteWorkflow demo_env empty_config)) =
     [''assets'', ''seo'', ''performance'', ''launch-checklist'']"
proof -
  note inst = runCompleteWorkflow_partial_failure [of perf_failing_env deploy_config]
  have perf: "failed_with (runPerformanceOptimization perf_failing_env
        (spread DEFAULT_CONFIG deploy_config)) EISDIR"
    using inst by (simp add: perf_failing_sel)
  have steps: "wr_steps (runCompleteWorkflow perf_failing_env deploy_config) =
      [runAssetGeneration perf_failing_env, runSEOOptimization perf_failing_env,
       runPerformanceOptimization perf_failing_env (spread DEFAULT_CONFIG deploy_config),
       runLaunchChecklistValidation perf_failing_env,
       runDeployment perf_failing_env False]"
    using inst by (simp add: deploy_config_flags gates)
  have five: "\<not> truthy (skipAssets (spread DEFAULT_CONFIG deploy_config))
        \<and> \<not> truthy (skipSEO (spread DEFAULT_CONFIG deploy_config))
        \<and> \<not> truthy (skipPerf (spread DEFAULT_CONFIG deploy_config))
        \<and> deploy_gate perf_failing_env (spread DEFAULT_CONFIG deploy_config)
        \<and> isl (optimizeImages_perf perf_failing_env)"
    by (simp add: deploy_config_flags gates perf_failing_sel)
  note law = inst [THEN conjunct2, THEN conjunct2, THEN conjunct2, THEN conjunct2,
      THEN conjunct2, THEN conjunct2, THEN conjunct1, THEN mp, OF five]
  note last3 = law [THEN conjunct2, THEN conjunct1]
  note fail = law [THEN conjunct2, THEN conjunct2]
  have statuses: "map step_status (wr_steps (runCompleteWorkflow perf_failing_env deploy_config)) =
     [Skipped, Completed, Failed, Completed, Skipped]"
    using last3 by (simp add: steps step_statuses perf_failing_sel)
  have assets: "failed_with (runAssetGeneration assets_failing_env) EISDIR"
    using runCompleteWorkflow_partial_failure [of assets_failing_env deploy_config]
    by (simp add: assets_failing_sel)
  have checklist: "failed_with (runLaunchChecklistValidation throwing_env) EISDIR"
    using runCompleteWorkflow_partial_failure [of throwing_env deploy_config]
    by (simp add: throwing_sel unreadable_run)
  have ready: "\<exists>cl. runLaunchChecklist (launch_project demo_env) (checklist_now demo_env) = Inr cl
      \<and> lc_readyToLaunch cl"
    using ready_run by (simp add: demo_sel)
  have undef: "skipAssets undefined_deploy_config = Absent"
    "skipSEO undefined_deploy_config = Absent" "skipPerf undefined_deploy_config = Absent"
    "skipDeploy undefined_deploy_config = Undefined"
    and empty: "skipAssets empty_config = Absent" "skipSEO empty_config = Absent"
    "skipPerf empty_config = Absent" "skipDeploy empty_config = Absent"
    by (simp_all add: undefined_deploy_config_def empty_config_def)
  have with_undefined:
    "map step_id (wr_steps (runCompleteWorkflow demo_env undefined_deploy_config)) =
     [''assets'', ''seo'', ''performance'', ''launch-checklist'', ''deployment'']"
    using runCompleteWorkflow_partial_failure [of demo_env undefined_deploy_config] ready
    by (simp add: undef step_ids)
  have with_empty:
    "map step_id (wr_steps (runCompleteWorkflow demo_env empty_config)) =
     [''assets'', ''seo'', ''performance'', ''launch-checklist'']"
    using runCompleteWorkflow_partial_failure [of demo_env empty_config]
    by (simp add: empty step_ids)
  show ?thesis
    using perf statuses fail assets checklist with_undefined with_empty
    by (simp add: steps step_ids perf_failing_sel)
qed

text \<open>
  Claim C5 as stated fails. Two runs ask for the deployment step and differ only in the
  project of the launch checklist: on the readable project the checklist is ready and the
  deployment step is the fifth step; on the project whose \<open>.gitignore\<close> cannot be read
  the launch-checklist step fails, and the step after it, the deployment step, is not
  executed.
\<close>

theorem failed_checklist_step_stops_deployment:
  "map step_id (wr_steps (runCompleteWorkflow demo_env deploy_config)) =
     [''assets'', ''seo'', ''performance'', ''launch-checklist'', ''deployment'']
   \<and> throwing_env = demo_env\<lparr>launch_project := unreadable_project\<rparr>
   \<and> map step_id (wr_steps (runCompleteWorkflow throwing_env deploy_config)) =
     [''assets'', ''seo'', ''performance'', ''launch-checklist'']
   \<and> map step_status (wr_steps (runCompleteWorkflow throwing_env deploy_config)) =
     [Skipped, Completed, Completed, Failed]"
proof (intro conjI)
  show "map step_id (wr_steps (runCompleteWorkflow demo_env deploy_config)) =
     [''assets'', ''seo'', ''performance'', ''launch-checklist'', ''deployment'']"
    by (simp add: runCompleteWorkflow_steps Let_def deploy_config_flags gates step_ids)
  show "throwing_env = demo_env\<lparr>launch_project := unreadable_project\<rparr>"
    by (simp only: throwing_env_def)
  show "map step_id (wr_steps (runCompleteWorkflow throwing_env deploy_config)) =
     [''assets'', ''seo'', ''performance'', ''launch-checklist'']"
    by (simp add: runCompleteWorkflow_steps Let_def deploy_config_flags gates step_ids)
  show "map step_status (wr_steps (runCompleteWorkflow throwing_env deploy_config)) =
     [Skipped, Completed, Completed, Failed]"
    using checklist_step_Inl [of throwing_env EISDIR]
    by (simp add: runCompleteWorkflow_steps Let_def deploy_config_flags gates
        step_statuses throwing_sel unreadable_run)
qed

section \<open>The workflow state store\<close>

text \<open>
  Claim C6. canResumeWorkflow is true if and only if the status is in-progress,
  currentStep is less than totalSteps and less than 24 hours (86400000 milliseconds) have
  passed since lastUpdate; a state last updated 25 hours ago cannot be resumed.
\<close>

theorem canResumeWorkflow_iff:
  "canResumeWorkflow now state =
     (ws_status state = InProgress \<and> ws_currentStep state < ws_totalSteps state
      \<and> now - ws_lastUpdate state < 86400000)
   \<and> \<not> canResumeWorkflow now (state\<lparr>ws_lastUpdate := now - 25 * 3600000\<rparr>)"
  by (simp add: canResumeWorkflow_def)

lemma history_entry_fields:
  "he_timestamp (history_entry now result) = now"
  "he_duration (history_entry now result) = wr_totalDuration result"
  "he_success (history_entry now result) = wr_overallSuccess result"
  "he_summary (history_entry now result) = wr_summary result"
  "map ss_id (he_steps (history_entry now result)) = map step_id (wr_steps result)"
  "map ss_name (he_steps (history_entry now result)) = map step_name (wr_steps result)"
  "map ss_status (he_steps (history_entry now result)) = map step_status (wr_steps result)"
  "map ss_duration (he_steps (history_entry now result)) = map step_duration (wr_steps result)"
  by (simp_all add: history_entry_def comp_def)

lemma saveToHistory_array:
  assumes "history_exists env" "history_readFile env = Inr content"
    "JSON_parse env content = Inr (JsonArray h)"
  shows "saveToHistory env now result =
    writeFile env (historyPath env) (take 10 (history_entry now result # h))"
  using assms by (simp add: saveToHistory_def Let_def)

lemma saveToHistory_absent:
  assumes "\<not> history_exists env \<or> isl (history_readFile env)
    \<or> (\<exists>content. history_readFile env = Inr content \<and> isl (JSON_parse env content))"
  shows "saveToHistory env now result =
    writeFile env (historyPath env) [history_entry now result]"
proof (cases "history_exists env")
  case False
  then show ?thesis by (simp add: saveToHistory_def Let_def)
next
  case True
  show ?thesis
  proof (cases "history_readFile env")
    case (Inl e)
    with True show ?thesis by (simp add: saveToHistory_def Let_def)
  next
    case (Inr content)
    with True assms have "isl (JSON_parse env content)" by auto
    then obtain e where "JSON_parse env content = Inl e"
      by (cases "JSON_parse env content") auto
    with True Inr show ?thesis by (simp add: saveToHistory_def Let_def)
  qed
qed

text \<open>
  What saveToHistory hands to the write. When the history file holds an array, it is the
  new entry followed by the old entries, cut to the first ten: the new entry is the head,
  and of ten old entries the last one, the oldest, is dropped. When the file is missing,
  cannot be read or cannot be parsed, it is the new entry alone. The write returns it if
  the directory exists and the write does not fail for a reason of its own, and throws
  \<open>ENOENT\<close> if the directory does not exist.
\<close>

lemma saveToHistory_written:
  "(history_exists env \<and> history_readFile env = Inr content
      \<and> JSON_parse env content = Inr (JsonArray h) \<longrightarrow>
      saveToHistory env now result =
        writeFile env (historyPath env) (take 10 (history_entry now result # h))
      \<and> length (take 10 (history_entry now result # h)) = min 10 (Suc (length h))
      \<and> hd (take 10 (history_entry now result # h)) = history_entry now result
      \<and> (length h = 10 \<longrightarrow>
           take 10 (history_entry now result # h) = history_entry now result # butlast h))
   \<and> (\<not> history_exists env \<or> isl (history_readFile env)
        \<or> (\<exists>content. history_readFile env = Inr content \<and> isl (JSON_parse env content)) \<longrightarrow>
      saveToHistory env now result =
        writeFile env (historyPath env) [history_entry now result])
   \<and> (stateDir_exists env \<and> history_writeFile env = None \<longrightarrow>
        writeFile env path entries = Inr entries)
   \<and> (\<not> stateDir_exists env \<longrightarrow> writeFile env path entries = Inl (ENOENT path))"
proof (intro conjI impI)
  assume a: "history_exists env \<and> history_readFile env = Inr content
      \<and> JSON_parse env content = Inr (JsonArray h)"
  then show "saveToHistory env now result =
      writeFile env (historyPath env) (take 10 (history_entry now result # h))"
    by (simp add: saveToHistory_array)
  show "length (take 10 (history_entry now result # h)) = min 10 (Suc (length h))"
    by simp
  show "hd (take 10 (history_entry now result # h)) = history_entry now result"
    by (simp add: take_Cons')
  show "take 10 (history_entry now result # h) = history_entry now result # butlast h"
    if "length h = 10"
    using that by (simp add: take_Cons' butlast_conv_take)
next
  assume "\<not> history_exists env \<or> isl (history_readFile env)
        \<or> (\<exists>content. history_readFile env = Inr content \<and> isl (JSON_parse env content))"
  then show "saveToHistory env now result =
      writeFile env (historyPath env) [history_entry now result]"
    by (rule saveToHistory_absent)
next
  assume "stateDir_exists env \<and> history_writeFile env = None"
  then show "writeFile env path entries = Inr entries"
    by (simp add: writeFile_def)
next
  assume "\<not> stateDir_exists env"
  then show "writeFile env path entries = Inl (ENOENT path)"
    by (simp add: writeFile_def)
qed

lemma history_sel:
  "stateDir_exists (history_of h)" "history_exists (history_of h)"
  "history_readFile (history_of h) = Inr ''[...]''"
  "JSON_parse (history_of h) content = Inr (JsonArray h)"
  "historyPath (history_of h) = ''/project/.ship-toolkit/workflow-history.json''"
  "statePath (history_of h) = ''/project/.ship-toolkit/workflow-state.json''"
  "history_writeFile (history_of h) = None" "mkdir_rejects (history_of h) = None"
  by (simp_all add: history_of_def)

lemma no_history_sel:
  "stateDir_exists no_history" "\<not> history_exists no_history"
  "historyPath no_history = ''/project/.ship-toolkit/workflow-history.json''"
  "history_writeFile no_history = None"
  by (simp_all add: no_history_def history_of_def)

lemma corrupt_history_sel:
  "stateDir_exists corrupt_history" "history_exists corrupt_history"
  "history_readFile corrupt_history = Inr ''[{''"
  "isl (JSON_parse corrupt_history content)"
  "historyPath corrupt_history = ''/project/.ship-toolkit/workflow-history.json''"
  "history_writeFile corrupt_history = None"
  by (simp_all add: corrupt_history_def history_of_def)

lemma first_run_sel:
  "\<not> stateDir_exists first_run" "\<not> history_exists first_run"
  "historyPath first_run = ''/project/.ship-toolkit/workflow-history.json''"
  "statePath first_run = ''/project/.ship-toolkit/workflow-state.json''"
  "mkdir_rejects first_run = None" "history_writeFile first_run = None"
  "first_run\<lparr>stateDir_exists := True\<rparr> = no_history"
  by (simp_all add: first_run_def no_history_def history_of_def)

lemma demo_entry:
  "history_entry 11 demo_result =
     \<lparr>he_timestamp = 11, he_duration = 7, he_success = True,
      he_summary = \<lparr>sm_assetsGenerated = 0, sm_seoScore = 0, sm_performanceScore = 0,
                    sm_launchScore = 0, sm_readyToLaunch = False\<rparr>,
      he_steps = [\<lparr>ss_id = ''a'', ss_name = ''A'', ss_status = Completed,
                   ss_duration = None\<rparr>]\<rparr>"
  by (simp add: history_entry_def demo_result_def step_a_def)

text \<open>
  Claim C7 says that saveToHistory prepends the new entry, keeps the ten most recent
  entries, and treats a missing or unparsable history file as the empty list rather than
  raising an error. The code does so wherever the directory \<open>.ship-toolkit\<close> exists:
  without a history file, or with one that is not JSON, it writes the single new entry,
  and an eleventh entry on ten drops the oldest. On a project where the directory does
  not exist yet, so that the history file is missing, saveToHistory throws \<open>ENOENT\<close>:
  it takes the history as empty and prepends the entry, but it never creates the
  directory, and the write fails. saveWorkflowState, on the same project, creates the
  directory and succeeds.
\<close>

theorem saveToHistory_throws_without_state_directory:
  "\<not> stateDir_exists first_run \<and> \<not> history_exists first_run
   \<and> saveToHistory first_run 11 demo_result =
       Inl (ENOENT ''/project/.ship-toolkit/workflow-history.json'')
   \<and> saveWorkflowState first_run fresh_state =
       Inr (first_run\<lparr>stateDir_exists := True\<rparr>, fresh_state)
   \<and> saveToHistory (first_run\<lparr>stateDir_exists := True\<rparr>) 11 demo_result =
       Inr [\<lparr>he_timestamp = 11, he_duration = 7, he_success = True,
             he_summary = \<lparr>sm_assetsGenerated = 0, sm_seoScore = 0, sm_performanceScore = 0,
                           sm_launchScore = 0, sm_readyToLaunch = False\<rparr>,
             he_steps = [\<lparr>ss_id = ''a'', ss_name = ''A'', ss_status = Completed,
                          ss_duration = None\<rparr>]\<rparr>]
   \<and> saveToHistory corrupt_history 11 demo_result = Inr [history_entry 11 demo_result]
   \<and> saveToHistory (history_of ten_entries) 11 demo_result =
       Inr (history_entry 11 demo_result # map old_entry [10, 9, 8, 7, 6, 5, 4, 3, 2])
   \<and> last ten_entries = old_entry 1"
proof (intro conjI)
  show "\<not> stateDir_exists first_run" "\<not> history_exists first_run"
    by (rule first_run_sel)+
  show "saveToHistory first_run 11 demo_result =
       Inl (ENOENT ''/project/.ship-toolkit/workflow-history.json'')"
    using saveToHistory_written [of first_run "[]" "[]" 11 demo_result
        "historyPath first_run" "[history_entry 11 demo_result]"]
    by (simp add: first_run_sel)
  show "saveWorkflowState first_run fresh_state =
       Inr (first_run\<lparr>stateDir_exists := True\<rparr>, fresh_state)"
    by (simp add: saveWorkflowState_def mkdir_def writeFile_def first_run_sel no_history_sel)
  show "saveToHistory (first_run\<lparr>stateDir_exists := True\<rparr>) 11 demo_result =
       Inr [\<lparr>he_timestamp = 11, he_duration = 7, he_success = True,
             he_summary = \<lparr>sm_assetsGenerated = 0, sm_seoScore = 0, sm_performanceScore = 0,
                           sm_launchScore = 0, sm_readyToLaunch = False\<rparr>,
             he_steps = [\<lparr>ss_id = ''a'', ss_name = ''A'', ss_status = Completed,
                          ss_duration = None\<rparr>]\<rparr>]"
    using saveToHistory_written [of no_history "[]" "[]" 11 demo_result
        "historyPath no_history" "[history_entry 11 demo_result]"]
    by (simp add: first_run_sel no_history_sel demo_entry)
  show "saveToHistory corrupt_history 11 demo_result = Inr [history_entry 11 demo_result]"
    using saveToHistory_written [of corrupt_history "[]" "[]" 11 demo_result
        "historyPath corrupt_history" "[history_entry 11 demo_result]"]
    by (auto simp: corrupt_history_sel)
  have "saveToHistory (history_of ten_entries) 11 demo_result =
      Inr (history_entry 11 demo_result # butlast ten_entries)"
    using saveToHistory_written [of "history_of ten_entries" "''[...]''" ten_entries 11
        demo_result "historyPath (history_of ten_entries)"
        "history_entry 11 demo_result # butlast ten_entries"]
    by (simp add: history_sel ten_entries_def)
  then show "saveToHistory (history_of ten_entries) 11 demo_result =
       Inr (history_entry 11 demo_result # map old_entry [10, 9, 8, 7, 6, 5, 4, 3, 2])"
    by (simp add: ten_entries_def)
  show "last ten_entries = old_entry 1"
    by (simp add: ten_entries_def)
qed

lemma findIndex_upsert:
  "(if findIndex (\<lambda>s. step_id s = step_id step) xs \<ge> 0
    then xs[nat (findIndex (\<lambda>s. step_id s = step_id step) xs) := step]
    else xs @ [step]) = upsert step xs"
proof (induction xs)
  case Nil
  show ?case by simp
next
  case (Cons x xs)
  show ?case
  proof (cases "step_id x = step_id step")
    case True
    then show ?thesis by simp
  next
    case False
    show ?thesis
    proof (cases "findIndex (\<lambda>s. step_id s = step_id step) xs < 0")
      case True
      with False Cons show ?thesis by (simp add: Let_def)
    next
      case False
      with \<open>step_id x \<noteq> step_id step\<close> Cons show ?thesis
        by (simp add: Let_def nat_add_distrib)
    qed
  qed
qed

text \<open>
  Claim C8, as the code has it. updateWorkflowState upserts the step into the steps by
  id. When the status of the step is terminal (completed, failed or skipped) it sets
  currentStep to the number of steps with a terminal status; otherwise it leaves
  currentStep as it was. When the resulting currentStep has reached totalSteps it sets the
  status to failed if some step is failed and to completed otherwise; else it leaves the
  status. It always sets lastUpdate to the current time.
\<close>

theorem updateWorkflowState_upserts:
  "ws_steps (updateWorkflowState state step now) = upsert step (ws_steps state)
   \<and> ws_currentStep (updateWorkflowState state step now) =
       (if is_terminal (step_status step)
        then int (length (filter (\<lambda>s. is_terminal (step_status s))
                    (ws_steps (updateWorkflowState state step now))))
        else ws_currentStep state)
   \<and> ws_status (updateWorkflowState state step now) =
       (if ws_totalSteps state \<le> ws_currentStep (updateWorkflowState state step now)
        then (if \<exists>s \<in> set (ws_steps (updateWorkflowState state step now)).
                   step_status s = Failed
              then WorkflowFailed else WorkflowCompleted)
        else ws_status state)
   \<and> ws_lastUpdate (updateWorkflowState state step now) = now
   \<and> ws_totalSteps (updateWorkflowState state step now) = ws_totalSteps state"
  using findIndex_upsert [of step "ws_steps state"]
  by (simp add: updateWorkflowState_def Let_def is_terminal_def list_ex_iff split: if_splits)

text \<open>
  The first step of a workflow is recorded again, as failed: it replaces the earlier
  record, currentStep is 1, and the workflow is failed if that was its only step.
\<close>

theorem updateWorkflowState_upserts_witness:
  "ws_steps (updateWorkflowState state_one (step_a Failed) 2) = [step_a Failed]
   \<and> ws_currentStep (updateWorkflowState state_one (step_a Failed) 2) = 1
   \<and> ws_status (updateWorkflowState state_one (step_a Failed) 2) = InProgress
   \<and> ws_status (updateWorkflowState (state_one\<lparr>ws_totalSteps := 1\<rparr>) (step_a Failed) 2)
       = WorkflowFailed
   \<and> ws_lastUpdate (updateWorkflowState state_one (step_a Failed) 2) = 2"
proof -
  have one: "ws_steps state_one = [step_a Completed]" "ws_totalSteps state_one = 3"
    "ws_status state_one = InProgress"
    by (simp_all add: state_one_def fresh_state_def createWorkflowState_def
        updateWorkflowState_def Let_def step_a_def)
  have id: "step_id (step_a st) = ''a''" "step_status (step_a st) = st" for st
    by (simp_all add: step_a_def)
  show ?thesis
    using updateWorkflowState_upserts [of state_one "step_a Failed" 2]
      updateWorkflowState_upserts [of "state_one\<lparr>ws_totalSteps := 1\<rparr>" "step_a Failed" 2]
    by (simp add: one id is_terminal_def)
qed

text \<open>
  Claim C8 as stated fails. The state is the one reached from a new workflow by recording
  its step \<open>a\<close> as completed. Recording \<open>a\<close> again as running leaves currentStep at 1,
  although no step has a terminal status any more.
\<close>

theorem currentStep_not_recomputed_for_running_step:
  "state_one = updateWorkflowState fresh_state (step_a Completed) 1
   \<and> ws_currentStep (updateWorkflowState state_one (step_a Running) 2) = 1
   \<and> filter (\<lambda>s. step_status s = Completed \<or> step_status s = Failed
               \<or> step_status s = Skipped)
        (ws_steps (updateWorkflowState state_one (step_a Running) 2)) = []"
  by (simp add: state_one_def fresh_state_def createWorkflowState_def
      updateWorkflowState_def Let_def step_a_def)

text \<open>
  Claim C9, as the code has it. createWorkflowState validates nothing and throws for no
  argument: it returns a state that is in progress, with currentStep 0, no steps and the
  totalSteps it was given, also when that is 0.
\<close>

theorem createWorkflowState_returns:
  "createWorkflowState projectRoot totalSteps config generatedId now1 now2 =
     Inr \<lparr>ws_id = generatedId, ws_projectRoot = projectRoot,
          ws_startTime = now1, ws_lastUpdate = now2,
          ws_status = InProgress, ws_currentStep = 0, ws_totalSteps = totalSteps,
          ws_steps = [], ws_config = config\<rparr>
   \<and> \<not> isl (createWorkflowState projectRoot 0 config generatedId now1 now2)
   \<and> ws_totalSteps (projr (createWorkflowState projectRoot 0 config generatedId now1 now2)) = 0"
  by (simp add: createWorkflowState_def)

text \<open>
  Claim C9 as stated fails: with totalSteps 0, createWorkflowState returns a state.
\<close>

theorem createWorkflowState_zero_steps_does_not_throw:
  "createWorkflowState ''/project'' 0 () ''workflow-0-abcdefghi'' 0 0 =
     Inr \<lparr>ws_id = ''workflow-0-abcdefghi'', ws_projectRoot = ''/project'',
          ws_startTime = 0, ws_lastUpdate = 0,
          ws_status = InProgress, ws_currentStep = 0, ws_totalSteps = 0,
          ws_steps = [], ws_config = ()\<rparr>"
  by (simp add: createWorkflowState_def)

end
